theory Spec2Isabelle
  imports Main "HOL-Library.Word"
begin

section \<open>String helpers of the Go standard library used by mounter.go\<close>

text \<open>
  Go strings are byte sequences; they are modelled as \<open>string\<close> (a list of 8-bit
  characters).  Only the library functions that \<^verbatim>\<open>pkg/flex/mounter.go\<close> calls are
  modelled, each with the behaviour the Go documentation gives it.
\<close>

text \<open>\<^verbatim>\<open>strings.HasPrefix(s, prefix)\<close>.\<close>

fun strings_HasPrefix :: "string \<Rightarrow> string \<Rightarrow> bool" where
  "strings_HasPrefix s [] = True"
| "strings_HasPrefix [] (p # ps) = False"
| "strings_HasPrefix (c # cs) (p # ps) = (c = p \<and> strings_HasPrefix cs ps)"

text \<open>\<^verbatim>\<open>strings.Contains(s, substr)\<close>: \<open>substr\<close> occurs somewhere within \<open>s\<close>.\<close>

fun strings_Contains :: "string \<Rightarrow> string \<Rightarrow> bool" where
  "strings_Contains [] substr = (substr = [])"
| "strings_Contains (c # cs) substr =
     (strings_HasPrefix (c # cs) substr \<or> strings_Contains cs substr)"

text \<open>
  \<^verbatim>\<open>strings.Split(s, sep)\<close> for a separator of one byte (the source passes
  \<^verbatim>\<open>string(filepath.Separator)\<close>, which is \<^verbatim>\<open>"/"\<close> on the platforms the driver runs
  on).  The result always has at least one element: splitting the empty string gives
  one empty segment.
\<close>

fun strings_Split :: "string \<Rightarrow> char \<Rightarrow> string list" where
  "strings_Split [] sep = [[]]"
| "strings_Split (c # cs) sep =
     (if c = sep then [] # strings_Split cs sep
      else (case strings_Split cs sep of
              [] \<Rightarrow> [[c]]
            | w # ws \<Rightarrow> (c # w) # ws))"

definition filepath_Separator :: char where
  "filepath_Separator = CHR ''/''"

section \<open>Errors\<close>

text \<open>
  The source builds its errors with \<^verbatim>\<open>fmt.Errorf\<close>.  Each place that creates an error
  is one constructor here, carrying the values the message is formatted from; an error
  handed over by the operating system, the container runtime client or a library is
  \<open>External\<close> with its message.
\<close>

datatype error =
    External string
  | PodsAtEnd string
      \<comment> \<open>\<^verbatim>\<open>"Expected a directory after pods, found it at the end: %s"\<close>\<close>
  | PodsNotFound string
      \<comment> \<open>\<^verbatim>\<open>"Could not find pod directory in path: %s"\<close>\<close>
  | CouldNotGetDataUrls error
      \<comment> \<open>\<^verbatim>\<open>"Could not get cluster data urls: %s"\<close>\<close>
  | FailedToGetContainerName error
      \<comment> \<open>\<^verbatim>\<open>"Failed to get container name: %s"\<close>\<close>
  | CouldNotGetContainerName error
      \<comment> \<open>\<^verbatim>\<open>"Could not get container name: %s"\<close>\<close>
  | CouldNotRemoveContainer string error
      \<comment> \<open>\<^verbatim>\<open>"Could not remove container for %s: %s"\<close>\<close>
  | FailedToCreateContainer string error
      \<comment> \<open>\<^verbatim>\<open>"Failed to create container for %s: %s"\<close>\<close>
  | MountTimeout string
      \<comment> \<open>\<^verbatim>\<open>"Failed to mount %s due to timeout"\<close>\<close>
  | FailedToParseDirsToCreate string error
      \<comment> \<open>\<^verbatim>\<open>"Failed to parse dirsToCreate [%s]: %s"\<close>\<close>
  | OnlyRelativePath string
      \<comment> \<open>\<^verbatim>\<open>"Only creation of relative path is supported (%s)"\<close>\<close>
  | StatFailed string error
      \<comment> \<open>\<^verbatim>\<open>"Stat failed for folder [%s]: %s"\<close>\<close>
  | FailedToCreateFolder string "32 word" error
      \<comment> \<open>\<^verbatim>\<open>"Failed to create folder (path: %s, filemode: %o): %s"\<close>\<close>

section \<open>The path identity resolver\<close>

text \<open>
  \<^verbatim>\<open>getContainerNameFromTargetPath\<close>: the loop \<^verbatim>\<open>for idx, part := range split\<close> is the
  recursion over the list of indices; \<^verbatim>\<open>split[podIDIdx]\<close> is read only after the bounds
  check of the source, and \<^verbatim>\<open>split[len(split)-1]\<close> is in range because a split has at
  least one segment.
\<close>

fun getContainerName_loop :: "string \<Rightarrow> string list \<Rightarrow> nat list \<Rightarrow> error + string" where
  "getContainerName_loop targetPath splitTargetPath [] = Inl (PodsNotFound targetPath)"
| "getContainerName_loop targetPath splitTargetPath (targetPathPartIdx # idxs) =
     (if splitTargetPath ! targetPathPartIdx = ''pods'' then
        (let podIDIdx = targetPathPartIdx + 1 in
         if podIDIdx \<ge> length splitTargetPath then Inl (PodsAtEnd targetPath)
         else Inr (''v3io-fuse-'' @ splitTargetPath ! podIDIdx @ ''-''
                     @ splitTargetPath ! (length splitTargetPath - 1)))
      else getContainerName_loop targetPath splitTargetPath idxs)"

definition getContainerNameFromTargetPath :: "string \<Rightarrow> error + string" where
  "getContainerNameFromTargetPath targetPath =
     (let splitTargetPath = strings_Split targetPath filepath_Separator
      in getContainerName_loop targetPath splitTargetPath [0..<length splitTargetPath])"

section \<open>More of the Go standard library: path joining and rune splitting\<close>

text \<open>\<^verbatim>\<open>strings.Join(elems, sep)\<close>.\<close>

fun strings_Join :: "string list \<Rightarrow> string \<Rightarrow> string" where
  "strings_Join [] sep = []"
| "strings_Join [e] sep = e"
| "strings_Join (e # es) sep = e @ sep @ strings_Join es sep"

text \<open>
  \<^verbatim>\<open>path.Clean\<close>, by the four rules of its documentation: runs of slashes count as one,
  \<^verbatim>\<open>.\<close> elements are dropped, an inner \<^verbatim>\<open>..\<close> removes the element before it, and a
  \<^verbatim>\<open>..\<close> at the start of a rooted path is dropped.  \<open>path_Clean_step\<close> keeps the
  elements seen so far, the last one first.
\<close>

fun path_Clean_step :: "bool \<Rightarrow> string list \<Rightarrow> string \<Rightarrow> string list" where
  "path_Clean_step rooted stack elem =
     (if elem = [] \<or> elem = ''.'' then stack
      else if elem = ''..'' then
        (case stack of
           [] \<Rightarrow> if rooted then [] else [''..'']
         | e # below \<Rightarrow> if e = ''..'' then ''..'' # stack else below)
      else elem # stack)"

definition path_Clean :: "string \<Rightarrow> string" where
  "path_Clean p =
     (if p = [] then ''.''
      else
        (let rooted = (hd p = CHR ''/'');
             stack = foldl (path_Clean_step rooted) [] (strings_Split p (CHR ''/''));
             out = (if rooted then ''/'' else []) @ strings_Join (rev stack) ''/''
         in if out = [] then ''.'' else out))"

text \<open>
  \<^verbatim>\<open>path.Join\<close>: once something has been written, every further element (an empty
  one too) is appended after a slash; the result is cleaned; if all elements are empty
  the result is the empty string.
\<close>

fun path_Join_buf :: "string \<Rightarrow> string list \<Rightarrow> string" where
  "path_Join_buf buf [] = buf"
| "path_Join_buf buf (e # es) =
     (if buf \<noteq> [] \<or> e \<noteq> [] then
        path_Join_buf ((if buf \<noteq> [] then buf @ ''/'' else buf) @ e) es
      else path_Join_buf buf es)"

definition path_Join :: "string list \<Rightarrow> string" where
  "path_Join elem =
     (if concat elem = [] then [] else path_Clean (path_Join_buf [] elem))"

text \<open>
  \<^verbatim>\<open>strings.Split(s, "")\<close> explodes \<open>s\<close> into its UTF-8 sequences.  \<open>utf8_size\<close> is
  the width \<^verbatim>\<open>utf8.DecodeRuneInString\<close> reports for the first rune of a non-empty
  string: the length of a well-formed sequence, and 1 for a byte that starts none.
\<close>

definition byte_within :: "nat \<Rightarrow> nat \<Rightarrow> char \<Rightarrow> bool" where
  "byte_within lo hi c = (lo \<le> of_char c \<and> (of_char c :: nat) \<le> hi)"

fun utf8_size :: "string \<Rightarrow> nat" where
  "utf8_size [] = 0"
| "utf8_size (s0 # rest) =
     (let b = (of_char s0 :: nat) in
      if b < 0xC2 \<or> 0xF4 < b then 1
      else if b \<le> 0xDF then
        (case rest of
           s1 # _ \<Rightarrow> if byte_within 0x80 0xBF s1 then 2 else 1
         | _ \<Rightarrow> 1)
      else if b \<le> 0xEF then
        (case rest of
           s1 # s2 # _ \<Rightarrow>
             if byte_within (if b = 0xE0 then 0xA0 else 0x80)
                  (if b = 0xED then 0x9F else 0xBF) s1
                \<and> byte_within 0x80 0xBF s2 then 3 else 1
         | _ \<Rightarrow> 1)
      else
        (case rest of
           s1 # s2 # s3 # _ \<Rightarrow>
             if byte_within (if b = 0xF0 then 0x90 else 0x80)
                  (if b = 0xF4 then 0x8F else 0xBF) s1
                \<and> byte_within 0x80 0xBF s2 \<and> byte_within 0x80 0xBF s3 then 4 else 1
         | _ \<Rightarrow> 1))"

function strings_Split_runes :: "string \<Rightarrow> string list" where
  "strings_Split_runes s =
     (if s = [] then []
      else take (utf8_size s) s # strings_Split_runes (drop (utf8_size s) s))"
  by pat_completeness auto
termination
proof (relation "measure length")
  fix s :: string
  assume "s \<noteq> []"
  then obtain c cs where s: "s = c # cs" by (cases s) auto
  have "0 < utf8_size (c # cs)"
    by (auto simp: Let_def split: list.splits)
  with s show "(drop (utf8_size s) s, s) \<in> measure length" by simp
qed simp

declare strings_Split_runes.simps [simp del]

section \<open>Data of the driver\<close>

text \<open>
  \<^verbatim>\<open>Config\<close>, \<^verbatim>\<open>Spec\<close>, \<^verbatim>\<open>DirToCreate\<close> and \<^verbatim>\<open>Response\<close> are declared in files of the
  package that are not part of the sources at hand; the records hold the fields that
  \<^verbatim>\<open>mounter.go\<close> reads.
\<close>

record Config =
  Type :: string
  ImageRepository :: string
  ImageTag :: string
  V3ioConfigPath :: string

record Spec =
  SubPath :: string
  Namespace :: string
  Container :: string
  DirsToCreate :: string

record DirToCreate =
  Name :: string
  Permissions :: "32 word"

text \<open>
  Modelled from the spec: the Mount Outcome, "a success/failure result with a
  human-readable message and, on failure, an underlying cause".  The two constructors
  are the two calls \<^verbatim>\<open>NewSuccessResponse(message)\<close> and
  \<^verbatim>\<open>NewFailResponse(message, err)\<close> of the source, with their arguments.
\<close>

datatype Response =
    NewSuccessResponse string
  | NewFailResponse string "error option"

text \<open>
  The functions of the package that \<^verbatim>\<open>mounter.go\<close> calls and that are declared in
  other files are parameters of the model: decoding the spec and the directory list
  (\<^verbatim>\<open>json.Unmarshal\<close> into a \<^verbatim>\<open>Spec\<close> and into a \<^verbatim>\<open>[]DirToCreate\<close>), \<^verbatim>\<open>Spec.validate\<close>,
  \<^verbatim>\<open>Spec.GetClusterName\<close>, \<^verbatim>\<open>Spec.GetAccessKey\<close> and \<^verbatim>\<open>Config.DataURLs\<close>.
\<close>

record deps =
  unmarshalSpec :: "string \<Rightarrow> error + Spec"
  validate :: "Spec \<Rightarrow> error option"
  unmarshalDirs :: "string \<Rightarrow> error + DirToCreate list"
  GetClusterName :: "Spec \<Rightarrow> string"
  GetAccessKey :: "Spec \<Rightarrow> string"
  DataURLs :: "Config \<Rightarrow> string \<Rightarrow> error + string"

section \<open>The world outside the process\<close>

text \<open>
  Everything the driver does to its surroundings is a \<open>call\<close>: the operating system
  (\<^verbatim>\<open>os.Stat\<close>, \<^verbatim>\<open>os.MkdirAll\<close>, \<^verbatim>\<open>os.Remove\<close>, \<^verbatim>\<open>os.Symlink\<close>), the two commands it runs
  (\<^verbatim>\<open>mount\<close> with its combined output, \<^verbatim>\<open>umount\<close> started and not waited for),
  \<^verbatim>\<open>time.Sleep\<close> in seconds, and the container runtime client of package \<^verbatim>\<open>cri\<close>.
  The calls made so far, oldest first, are the state that is threaded through the
  model; the surroundings are any function from that history and the next call to a
  reply, so nothing is assumed about how mounts or files come and go.  Logging through
  package \<^verbatim>\<open>journal\<close> is left out.
\<close>

datatype cri = Docker string | Containerd string string

datatype call =
    Stat string
  | MkdirAll string "32 word"
  | Remove string
  | Symlink string string
  | ExecMount
  | ExecUmountStart string
  | Sleep nat
  | NewDocker string
  | NewContainerd string string
  | CreateContainer cri string string string "string list"
  | RemoveContainer cri string
  | Close cri

text \<open>
  A reply is \<open>Ok\<close> with the output of the call (\<^verbatim>\<open>err == nil\<close>), \<open>NotExist\<close> for an
  error that \<^verbatim>\<open>os.IsNotExist\<close> accepts, or \<open>Failure\<close> for any other error.
\<close>

datatype reply = Ok string | NotExist string | Failure string

type_synonym history = "call list"
type_synonym environment = "history \<Rightarrow> call \<Rightarrow> reply"

definition perform :: "environment \<Rightarrow> call \<Rightarrow> history \<Rightarrow> reply \<times> history" where
  "perform env c h = (env h c, h @ [c])"

fun reply_err :: "reply \<Rightarrow> error option" where
  "reply_err (Ok out) = None"
| "reply_err (NotExist msg) = Some (External msg)"
| "reply_err (Failure msg) = Some (External msg)"

fun os_IsNotExist :: "reply \<Rightarrow> bool" where
  "os_IsNotExist (NotExist msg) = True"
| "os_IsNotExist r = False"

section \<open>The mount-state prober\<close>

definition isMountPoint :: "environment \<Rightarrow> string \<Rightarrow> history \<Rightarrow> bool \<times> history" where
  "isMountPoint env path h =
     (let (r, h1) = perform env ExecMount h in
      case r of
        Ok mountList \<Rightarrow> (strings_Contains mountList (path @ '' type''), h1)
      | _ \<Rightarrow> (False, h1))"

section \<open>The runtime client\<close>

definition createCRI :: "environment \<Rightarrow> history \<Rightarrow> (error + cri) \<times> history" where
  "createCRI env h =
     (let dockerBinaryPath = ''/usr/bin/docker'';
          (st, h1) = perform env (Stat dockerBinaryPath) h
      in if os_IsNotExist st then
           (let (r, h2) = perform env (NewContainerd ''/run/containerd/containerd.sock'' ''v3io'') h1
            in case reply_err r of
                 Some err \<Rightarrow> (Inl err, h2)
               | None \<Rightarrow> (Inr (Containerd ''/run/containerd/containerd.sock'' ''v3io''), h2))
         else
           (let (r, h2) = perform env (NewDocker dockerBinaryPath) h1
            in case reply_err r of
                 Some err \<Rightarrow> (Inl err, h2)
               | None \<Rightarrow> (Inr (Docker dockerBinaryPath), h2)))"

definition removeV3IOFUSEContainer ::
  "environment \<Rightarrow> cri \<Rightarrow> string \<Rightarrow> history \<Rightarrow> error option \<times> history" where
  "removeV3IOFUSEContainer env criInstance targetPath h =
     (case getContainerNameFromTargetPath targetPath of
        Inl err \<Rightarrow> (Some (CouldNotGetContainerName err), h)
      | Inr containerName \<Rightarrow>
          (let (r, h1) = perform env (RemoveContainer criInstance containerName) h
           in case reply_err r of
                Some err \<Rightarrow> (Some (CouldNotRemoveContainer targetPath err), h1)
              | None \<Rightarrow> (None, h1)))"

section \<open>The helper container lifecycle manager\<close>

text \<open>
  The argument vector of the helper, as \<^verbatim>\<open>createV3IOFUSEContainer\<close> builds it.  The
  backslash encoding is \<^verbatim>\<open>"\\" + strings.Join(strings.Split(s, ""), "\\")\<close>.
\<close>

definition backslashEncoded :: "string \<Rightarrow> string" where
  "backslashEncoded s = [CHR 0x5C] @ strings_Join (strings_Split_runes s) [CHR 0x5C]"

definition helperArgs :: "Config \<Rightarrow> Spec \<Rightarrow> string \<Rightarrow> string \<Rightarrow> string list" where
  "helperArgs config spec dataUrls accessKey =
     (let args = [''/fuse/mounter.sh'',
                  ''-o'', ''allow_other'',
                  ''--connection_strings'', dataUrls,
                  ''--mountpoint'', ''/fuse_mount'',
                  ''--session_key'', accessKey];
          args = (if V3ioConfigPath config \<noteq> [] then args @ [''-f'', V3ioConfigPath config]
                  else args)
      in if Container spec \<noteq> [] then
           (let args = args @ [''-a'', backslashEncoded (Container spec)]
            in if SubPath spec \<noteq> [] then args @ [''-p'', backslashEncoded (SubPath spec)]
               else args)
         else args)"

text \<open>
  The loop after the creation: the mount state is probed first, and the wait of the
  step follows only when the probe says "not mounted".
\<close>

fun waitForMount :: "environment \<Rightarrow> string \<Rightarrow> nat list \<Rightarrow> history \<Rightarrow> error option \<times> history" where
  "waitForMount env targetPath [] h = (Some (MountTimeout targetPath), h)"
| "waitForMount env targetPath (interval # intervals) h =
     (let (mounted, h1) = isMountPoint env targetPath h in
      if mounted then (None, h1)
      else (let (r, h2) = perform env (Sleep interval) h1
            in waitForMount env targetPath intervals h2))"

text \<open>
  The part of \<^verbatim>\<open>createV3IOFUSEContainer\<close> that runs once the runtime client exists;
  the deferred \<^verbatim>\<open>criInstance.Close()\<close> runs when it returns, whatever it returns.
\<close>

definition createV3IOFUSEContainer_body ::
  "deps \<Rightarrow> Config \<Rightarrow> environment \<Rightarrow> cri \<Rightarrow> Spec \<Rightarrow> string \<Rightarrow> history
     \<Rightarrow> error option \<times> history" where
  "createV3IOFUSEContainer_body d config env criInstance spec targetPath h =
     (let imageRepository = (if ImageRepository config = [] then ''iguazio/v3io-fuse''
                             else ImageRepository config);
          imageTag = (if ImageTag config = [] then ''local'' else ImageTag config)
      in case DataURLs d config (GetClusterName d spec) of
           Inl err \<Rightarrow> (Some (CouldNotGetDataUrls err), h)
         | Inr dataUrls \<Rightarrow>
            (case getContainerNameFromTargetPath targetPath of
               Inl err \<Rightarrow> (Some (FailedToGetContainerName err), h)
             | Inr containerName \<Rightarrow>
                (let (ignored, h1) = removeV3IOFUSEContainer env criInstance targetPath h;
                     args = helperArgs config spec dataUrls (GetAccessKey d spec);
                     (r, h2) = perform env
                        (CreateContainer criInstance (imageRepository @ '':'' @ imageTag)
                           containerName targetPath args) h1
                 in case reply_err r of
                      Some err \<Rightarrow> (Some (FailedToCreateContainer targetPath err), h2)
                    | None \<Rightarrow> waitForMount env targetPath [1, 2, 4, 2, 1] h2)))"

definition createV3IOFUSEContainer ::
  "deps \<Rightarrow> Config \<Rightarrow> environment \<Rightarrow> Spec \<Rightarrow> string \<Rightarrow> history \<Rightarrow> error option \<times> history" where
  "createV3IOFUSEContainer d config env spec targetPath h =
     (let (c, h1) = createCRI env h in
      case c of
        Inl err \<Rightarrow> (Some err, h1)
      | Inr criInstance \<Rightarrow>
          (let (res, h2) = createV3IOFUSEContainer_body d config env criInstance spec targetPath h1;
               (r, h3) = perform env (Close criInstance) h2
           in (res, h3)))"

section \<open>Directory pre-creation\<close>

fun createDirs_loop :: "environment \<Rightarrow> string \<Rightarrow> DirToCreate list \<Rightarrow> history
    \<Rightarrow> error option \<times> history" where
  "createDirs_loop env targetPath [] h = (None, h)"
| "createDirs_loop env targetPath (dir # dirs) h =
     (if strings_HasPrefix (Name dir) ''/'' then (Some (OnlyRelativePath (Name dir)), h)
      else
        (let dirToCreate = targetPath @ ''/'' @ Name dir;
             (st, h1) = perform env (Stat dirToCreate) h
         in case reply_err st of
              None \<Rightarrow> createDirs_loop env targetPath dirs h1
            | Some err \<Rightarrow>
               (if \<not> os_IsNotExist st then (Some (StatFailed dirToCreate err), h1)
                else
                  (let (r, h2) = perform env (MkdirAll dirToCreate (Permissions dir)) h1
                   in case reply_err r of
                        Some err \<Rightarrow> (Some (FailedToCreateFolder (Name dir) (Permissions dir) err), h2)
                      | None \<Rightarrow> createDirs_loop env targetPath dirs h2))))"

definition createDirs :: "deps \<Rightarrow> environment \<Rightarrow> Spec \<Rightarrow> string \<Rightarrow> history
    \<Rightarrow> error option \<times> history" where
  "createDirs d env spec targetPath h =
     (case unmarshalDirs d (DirsToCreate spec) of
        Inl err \<Rightarrow>
          (if DirsToCreate spec \<noteq> [] then
             (Some (FailedToParseDirsToCreate (DirsToCreate spec) err), h)
           else (None, h))
      | Inr dirsToCreate \<Rightarrow> createDirs_loop env targetPath dirsToCreate h)"

section \<open>The mount orchestrator\<close>

text \<open>The mode \<^verbatim>\<open>0755\<close> (octal) of the shared directory.\<close>

definition mode_0755 :: "32 word" where
  "mode_0755 = 7 * 64 + 5 * 8 + 5"

definition mountAsLink :: "deps \<Rightarrow> Config \<Rightarrow> environment \<Rightarrow> Spec \<Rightarrow> string \<Rightarrow> history
    \<Rightarrow> Response \<times> history" where
  "mountAsLink d config env spec targetPath h =
     (let linkPath = path_Join [''/mnt/v3io'', Namespace spec, Container spec];
          (mounted, h1) = isMountPoint env linkPath h;
          (failed, h2) =
            (if \<not> mounted then
               (let (r, h3) = perform env (MkdirAll linkPath mode_0755) h1
                in case reply_err r of
                     Some err \<Rightarrow>
                       (Some (NewFailResponse (''Failed to create target '' @ linkPath) (Some err)), h3)
                   | None \<Rightarrow>
                      (case createV3IOFUSEContainer d config env spec linkPath h3 of
                         (Some err, h4) \<Rightarrow>
                           (Some (NewFailResponse ''Failed to create v3io FUSE container'' (Some err)), h4)
                       | (None, h4) \<Rightarrow> (None, h4)))
             else (None, h1))
      in case failed of
           Some response \<Rightarrow> (response, h2)
         | None \<Rightarrow>
            (let (r, h5) = perform env (Remove targetPath) h2
             in case reply_err r of
                  Some err \<Rightarrow>
                    (NewFailResponse (''Failed to remove target '' @ targetPath) (Some err), h5)
                | None \<Rightarrow>
                   (let (r, h6) = perform env (Symlink linkPath targetPath) h5
                    in case reply_err r of
                         Some err \<Rightarrow>
                           (NewFailResponse (''Failed to create link '' @ linkPath @ '' to target ''
                              @ targetPath) (Some err), h6)
                       | None \<Rightarrow> (NewSuccessResponse ''Successfully mounted as link'', h6))))"

definition Mount :: "deps \<Rightarrow> Config \<Rightarrow> environment \<Rightarrow> string \<Rightarrow> string \<Rightarrow> history
    \<Rightarrow> Response \<times> history" where
  "Mount d config env targetPath specString h =
     (case unmarshalSpec d specString of
        Inl err \<Rightarrow> (NewFailResponse ''Failed to unmarshal spec'' (Some err), h)
      | Inr spec \<Rightarrow>
         (case validate d spec of
            Some err \<Rightarrow> (NewFailResponse ''Mount failed validation'' (Some err), h)
          | None \<Rightarrow>
             if Type config = ''link'' then mountAsLink d config env spec targetPath h
             else
               (let (mounted, h1) = isMountPoint env targetPath h in
                if mounted then (NewSuccessResponse (''Already mounted: '' @ targetPath), h1)
                else
                  (case createV3IOFUSEContainer d config env spec targetPath h1 of
                     (Some err, h2) \<Rightarrow>
                       (NewFailResponse ''Failed to create v3io FUSE container'' (Some err), h2)
                   | (None, h2) \<Rightarrow>
                      (case createDirs d env spec targetPath h2 of
                         (Some err, h3) \<Rightarrow>
                           (NewFailResponse ''Failed to create folders'' (Some err), h3)
                       | (None, h3) \<Rightarrow> (NewSuccessResponse ''Successfully mounted'', h3))))))"

section \<open>The unmount orchestrator\<close>

definition unmountAsLink :: "environment \<Rightarrow> string \<Rightarrow> history \<Rightarrow> Response \<times> history" where
  "unmountAsLink env targetPath h =
     (let (r, h1) = perform env (Remove targetPath) h
      in case reply_err r of
           Some err \<Rightarrow> (NewFailResponse ''unable to remove link'' (Some err), h1)
         | None \<Rightarrow> (NewSuccessResponse ''link removed'', h1))"

text \<open>
  The loop of \<^verbatim>\<open>Unmount\<close> after \<^verbatim>\<open>umount\<close> has been started: probe first, remove the
  directory as soon as a probe says "not mounted", wait otherwise.
\<close>

fun waitForUnmount :: "environment \<Rightarrow> string \<Rightarrow> nat list \<Rightarrow> history \<Rightarrow> Response \<times> history" where
  "waitForUnmount env targetPath [] h =
     (NewFailResponse (''Failed to umount '' @ targetPath @ '' due to timeout'') None, h)"
| "waitForUnmount env targetPath (interval # intervals) h =
     (let (mounted, h1) = isMountPoint env targetPath h in
      if \<not> mounted then
        (let (r, h2) = perform env (Remove targetPath) h1
         in case reply_err r of
              Some err \<Rightarrow>
                (NewFailResponse (''Could not remove directory '' @ targetPath) (Some err), h2)
            | None \<Rightarrow> (NewSuccessResponse ''Successfully unmounted'', h2))
      else (let (r, h2) = perform env (Sleep interval) h1
            in waitForUnmount env targetPath intervals h2))"

definition Unmount_body :: "environment \<Rightarrow> cri \<Rightarrow> string \<Rightarrow> history \<Rightarrow> Response \<times> history" where
  "Unmount_body env criInstance targetPath h =
     (case removeV3IOFUSEContainer env criInstance targetPath h of
        (Some err, h1) \<Rightarrow>
          (NewFailResponse ''Failed to remove v3io FUSE container'' (Some err), h1)
      | (None, h1) \<Rightarrow>
         (let (r, h2) = perform env (ExecUmountStart targetPath) h1
          in case reply_err r of
               Some err \<Rightarrow> (NewFailResponse ''Failed to call unmount'' (Some err), h2)
             | None \<Rightarrow> waitForUnmount env targetPath [1, 2, 4] h2))"

definition Unmount :: "Config \<Rightarrow> environment \<Rightarrow> string \<Rightarrow> history \<Rightarrow> Response \<times> history" where
  "Unmount config env targetPath h =
     (if Type config = ''link'' then unmountAsLink env targetPath h
      else
        (let (mounted, h1) = isMountPoint env targetPath h in
         if \<not> mounted then
           (NewSuccessResponse (targetPath @ '' Not a mountpoint, nothing to do''), h1)
         else
           (let (c, h2) = createCRI env h1 in
            case c of
              Inl err \<Rightarrow> (NewFailResponse ''Failed to create CRI'' (Some err), h2)
            | Inr criInstance \<Rightarrow>
                (let (response, h3) = Unmount_body env criInstance targetPath h2;
                     (r, h4) = perform env (Close criInstance) h3
                 in (response, h4)))))"

section \<open>Helpers for stating properties\<close>

text \<open>The answer of the prober at a given history.\<close>

definition probe :: "environment \<Rightarrow> string \<Rightarrow> history \<Rightarrow> bool" where
  "probe env path h = fst (isMountPoint env path h)"

text \<open>
  The history at which the polling loops make their probe number \<open>k\<close> (counted from
  0) when every earlier probe sent them into the wait of its step: \<open>k\<close> rounds of a
  probe followed by a wait.
\<close>

definition probe_history :: "history \<Rightarrow> nat list \<Rightarrow> nat \<Rightarrow> history" where
  "probe_history h intervals k =
     h @ concat (map (\<lambda>interval. [ExecMount, Sleep interval]) (take k intervals))"

fun seconds_slept :: "history \<Rightarrow> nat" where
  "seconds_slept [] = 0"
| "seconds_slept (Sleep n # h) = n + seconds_slept h"
| "seconds_slept (c # h) = seconds_slept h"

text \<open>The image reference that \<^verbatim>\<open>createV3IOFUSEContainer\<close> passes to the runtime.\<close>

definition imageReference :: "Config \<Rightarrow> string" where
  "imageReference config =
     (if ImageRepository config = [] then ''iguazio/v3io-fuse'' else ImageRepository config)
       @ '':'' @ (if ImageTag config = [] then ''local'' else ImageTag config)"

section \<open>Example surroundings\<close>

text \<open>
  Concrete configurations, decoders and environments on which the properties below
  are exercised.  A decoder of an example accepts one text and rejects every other
  one, the empty text included, as \<^verbatim>\<open>json.Unmarshal\<close> does.
\<close>

definition direct_config :: Config where
  "direct_config = \<lparr>Type = [], ImageRepository = [], ImageTag = [], V3ioConfigPath = []\<rparr>"

definition link_config :: Config where
  "link_config = \<lparr>Type = ''link'', ImageRepository = [], ImageTag = [], V3ioConfigPath = []\<rparr>"

definition example_spec :: Spec where
  "example_spec = \<lparr>SubPath = ''sub'', Namespace = ''ns1'', Container = ''c1'', DirsToCreate = []\<rparr>"

definition example_spec_no_container :: Spec where
  "example_spec_no_container =
     \<lparr>SubPath = ''sub'', Namespace = ''ns1'', Container = [], DirsToCreate = []\<rparr>"

definition example_spec_bad_dirs :: Spec where
  "example_spec_bad_dirs =
     \<lparr>SubPath = [], Namespace = ''ns1'', Container = ''c1'', DirsToCreate = ''[{''\<rparr>"

definition example_dirs :: "DirToCreate list" where
  "example_dirs = [\<lparr>Name = ''a/b'', Permissions = mode_0755\<rparr>,
                   \<lparr>Name = ''c'', Permissions = mode_0755\<rparr>]"

definition example_dirs_absolute_first :: "DirToCreate list" where
  "example_dirs_absolute_first = [\<lparr>Name = ''/etc'', Permissions = mode_0755\<rparr>,
                                  \<lparr>Name = ''a'', Permissions = mode_0755\<rparr>]"

definition example_spec_dirs :: Spec where
  "example_spec_dirs =
     \<lparr>SubPath = [], Namespace = ''ns1'', Container = ''c1'', DirsToCreate = ''dirs''\<rparr>"

definition example_deps :: "Spec \<Rightarrow> DirToCreate list \<Rightarrow> deps" where
  "example_deps spec dirs =
     \<lparr>unmarshalSpec = (\<lambda>s. if s = ''spec'' then Inr spec
                           else Inl (External ''invalid character'')),
      validate = (\<lambda>sp. if Namespace sp = [] then Some (External ''missing field'') else None),
      unmarshalDirs = (\<lambda>s. if s = ''dirs'' then Inr dirs
                           else Inl (External ''unexpected end of JSON input'')),
      GetClusterName = (\<lambda>sp. ''default''),
      GetAccessKey = (\<lambda>sp. ''key''),
      DataURLs = (\<lambda>config cluster. Inr ''tcp://10.0.0.1:1234'')\<rparr>"

definition example_target :: string where
  "example_target = ''/k/pods/p1/volumes/v3io~fuse/vol1''"


text \<open>One line of the output of \<^verbatim>\<open>mount\<close> for a file system mounted on \<open>path\<close>.\<close>

definition mount_line :: "string \<Rightarrow> string" where
  "mount_line path = ''v3io on '' @ path @ '' type fuse (rw)''"

text \<open>
  The mount on \<open>path\<close> shows in the listing once \<open>n\<close> seconds have been slept;
  every other call succeeds.
\<close>

definition env_mounted_from :: "nat \<Rightarrow> string \<Rightarrow> environment" where
  "env_mounted_from n path h c =
     (case c of
        ExecMount \<Rightarrow> Ok (if n \<le> seconds_slept h then mount_line path else [])
      | _ \<Rightarrow> Ok [])"

text \<open>
  The mount on \<open>path\<close> shows in the listing until \<open>n\<close> seconds have been slept;
  every other call succeeds.
\<close>

definition env_mounted_until :: "nat \<Rightarrow> string \<Rightarrow> environment" where
  "env_mounted_until n path h c =
     (case c of
        ExecMount \<Rightarrow> Ok (if seconds_slept h < n then mount_line path else [])
      | _ \<Rightarrow> Ok [])"

text \<open>Nothing is mounted and nothing exists: \<^verbatim>\<open>os.Remove\<close> and \<^verbatim>\<open>os.Stat\<close> find no file.\<close>

definition env_empty :: environment where
  "env_empty h c =
     (case c of
        Remove p \<Rightarrow> NotExist ''no such file or directory''
      | Stat p \<Rightarrow> NotExist ''no such file or directory''
      | _ \<Rightarrow> Ok [])"

text \<open>The listing of \<^verbatim>\<open>mount\<close> is the given text; every other call succeeds.\<close>

definition env_listing :: "string \<Rightarrow> environment" where
  "env_listing listing h c = (case c of ExecMount \<Rightarrow> Ok listing | _ \<Rightarrow> Ok [])"

text \<open>
  Nothing is mounted; a directory exists if it is among \<open>existing\<close> or has been created
  by an earlier \<^verbatim>\<open>os.MkdirAll\<close>; every other call succeeds.
\<close>

definition env_dirs :: "string list \<Rightarrow> environment" where
  "env_dirs existing h c =
     (case c of
        Stat p \<Rightarrow> if p \<in> set existing \<or> list_ex (\<lambda>c'. case c' of MkdirAll q m \<Rightarrow> q = p | _ \<Rightarrow> False) h
                  then Ok [] else NotExist ''no such file or directory''
      | _ \<Rightarrow> Ok [])"

section \<open>Properties\<close>

subsection \<open>The prober and the two polling loops\<close>

lemma isMountPoint_history: "snd (isMountPoint env path h) = h @ [ExecMount]"
  by (simp add: isMountPoint_def perform_def split: reply.splits)

lemma isMountPoint_probe: "isMountPoint env path h = (probe env path h, h @ [ExecMount])"
  using isMountPoint_history [of env path h] by (simp add: probe_def prod_eq_iff)

lemma probe_history_0: "probe_history h intervals 0 = h"
  by (simp add: probe_history_def)

lemma probe_history_Suc:
  "probe_history h (interval # intervals) (Suc k) =
     probe_history (h @ [ExecMount, Sleep interval]) intervals k"
  by (simp add: probe_history_def)

lemma waitForMount_found:
  assumes "k < length intervals"
      and "probe env targetPath (probe_history h intervals k)"
      and "\<forall>j<k. \<not> probe env targetPath (probe_history h intervals j)"
  shows "waitForMount env targetPath intervals h =
           (None, probe_history h intervals k @ [ExecMount])"
  using assms
proof (induction intervals arbitrary: h k)
  case Nil
  then show ?case by simp
next
  case (Cons interval intervals)
  show ?case
  proof (cases k)
    case 0
    with Cons.prems(2) show ?thesis
      by (simp add: isMountPoint_probe probe_history_0)
  next
    case (Suc k')
    from Cons.prems(3) Suc have first: "\<not> probe env targetPath h"
      by (auto simp: probe_history_0 dest: spec [of _ 0])
    have later: "\<forall>j<k'. \<not> probe env targetPath
                    (probe_history (h @ [ExecMount, Sleep interval]) intervals j)"
    proof (intro allI impI)
      fix j assume "j < k'"
      then have "Suc j < k" using Suc by simp
      with Cons.prems(3) show "\<not> probe env targetPath
          (probe_history (h @ [ExecMount, Sleep interval]) intervals j)"
        by (auto simp: probe_history_Suc dest: spec [of _ "Suc j"])
    qed
    have "waitForMount env targetPath intervals (h @ [ExecMount, Sleep interval]) =
            (None, probe_history (h @ [ExecMount, Sleep interval]) intervals k' @ [ExecMount])"
      using Cons.prems(1,2) Suc later
      by (intro Cons.IH) (simp_all add: probe_history_Suc)
    with first Suc show ?thesis
      by (simp add: isMountPoint_probe perform_def probe_history_Suc)
  qed
qed

lemma waitForMount_timeout:
  assumes "\<forall>j<length intervals. \<not> probe env targetPath (probe_history h intervals j)"
  shows "waitForMount env targetPath intervals h =
           (Some (MountTimeout targetPath), probe_history h intervals (length intervals))"
  using assms
proof (induction intervals arbitrary: h)
  case Nil
  then show ?case by (simp add: probe_history_def)
next
  case (Cons interval intervals)
  from Cons.prems have first: "\<not> probe env targetPath h"
    by (auto simp: probe_history_0 dest: spec [of _ 0])
  have later: "\<forall>j<length intervals. \<not> probe env targetPath
                  (probe_history (h @ [ExecMount, Sleep interval]) intervals j)"
  proof (intro allI impI)
    fix j assume "j < length intervals"
    then have "Suc j < length (interval # intervals)" by simp
    with Cons.prems show "\<not> probe env targetPath
        (probe_history (h @ [ExecMount, Sleep interval]) intervals j)"
      by (auto simp: probe_history_Suc dest: spec [of _ "Suc j"])
  qed
  from Cons.IH [OF later] first show ?case
    by (simp add: isMountPoint_probe perform_def probe_history_Suc)
qed

lemma waitForUnmount_gone:
  assumes "k < length intervals"
      and "\<not> probe env targetPath (probe_history h intervals k)"
      and "\<forall>j<k. probe env targetPath (probe_history h intervals j)"
  shows "waitForUnmount env targetPath intervals h =
           (case reply_err (env (probe_history h intervals k @ [ExecMount]) (Remove targetPath)) of
              None \<Rightarrow> NewSuccessResponse ''Successfully unmounted''
            | Some err \<Rightarrow> NewFailResponse (''Could not remove directory '' @ targetPath) (Some err),
            probe_history h intervals k @ [ExecMount, Remove targetPath])"
  using assms
proof (induction intervals arbitrary: h k)
  case Nil
  then show ?case by simp
next
  case (Cons interval intervals)
  show ?case
  proof (cases k)
    case 0
    with Cons.prems(2) show ?thesis
      by (simp add: isMountPoint_probe probe_history_0 perform_def split: option.splits)
  next
    case (Suc k')
    from Cons.prems(3) Suc have first: "probe env targetPath h"
      by (auto simp: probe_history_0 dest: spec [of _ 0])
    have later: "\<forall>j<k'. probe env targetPath
                    (probe_history (h @ [ExecMount, Sleep interval]) intervals j)"
    proof (intro allI impI)
      fix j assume "j < k'"
      then have "Suc j < k" using Suc by simp
      with Cons.prems(3) show "probe env targetPath
          (probe_history (h @ [ExecMount, Sleep interval]) intervals j)"
        by (auto simp: probe_history_Suc dest: spec [of _ "Suc j"])
    qed
    have "waitForUnmount env targetPath intervals (h @ [ExecMount, Sleep interval]) =
           (case reply_err (env (probe_history (h @ [ExecMount, Sleep interval]) intervals k' @ [ExecMount])
                   (Remove targetPath)) of
              None \<Rightarrow> NewSuccessResponse ''Successfully unmounted''
            | Some err \<Rightarrow> NewFailResponse (''Could not remove directory '' @ targetPath) (Some err),
            probe_history (h @ [ExecMount, Sleep interval]) intervals k' @ [ExecMount, Remove targetPath])"
      using Cons.prems(1,2) Suc later
      by (intro Cons.IH) (simp_all add: probe_history_Suc)
    with first Suc show ?thesis
      by (simp add: isMountPoint_probe perform_def probe_history_Suc)
  qed
qed

lemma waitForUnmount_timeout:
  assumes "\<forall>j<length intervals. probe env targetPath (probe_history h intervals j)"
  shows "waitForUnmount env targetPath intervals h =
           (NewFailResponse (''Failed to umount '' @ targetPath @ '' due to timeout'') None,
            probe_history h intervals (length intervals))"
  using assms
proof (induction intervals arbitrary: h)
  case Nil
  then show ?case by (simp add: probe_history_def)
next
  case (Cons interval intervals)
  from Cons.prems have first: "probe env targetPath h"
    by (auto simp: probe_history_0 dest: spec [of _ 0])
  have later: "\<forall>j<length intervals. probe env targetPath
                  (probe_history (h @ [ExecMount, Sleep interval]) intervals j)"
  proof (intro allI impI)
    fix j assume "j < length intervals"
    then have "Suc j < length (interval # intervals)" by simp
    with Cons.prems show "probe env targetPath
        (probe_history (h @ [ExecMount, Sleep interval]) intervals j)"
      by (auto simp: probe_history_Suc dest: spec [of _ "Suc j"])
  qed
  from Cons.IH [OF later] first show ?case
    by (simp add: isMountPoint_probe perform_def probe_history_Suc)
qed

subsection \<open>The path identity resolver\<close>

lemma getContainerName_loop_find:
  "getContainerName_loop tp segs idxs =
     (case List.find (\<lambda>i. segs ! i = ''pods'') idxs of
        None \<Rightarrow> Inl (PodsNotFound tp)
      | Some i \<Rightarrow>
          if length segs \<le> Suc i then Inl (PodsAtEnd tp)
          else Inr (''v3io-fuse-'' @ segs ! Suc i @ ''-'' @ segs ! (length segs - 1)))"
  by (induction idxs) (simp_all add: Let_def)

lemma find_upt_None:
  "List.find P [0..<n] = None \<longleftrightarrow> (\<forall>i<n. \<not> P i)"
  by (auto simp: find_None_iff)

lemma find_upt_Some:
  "List.find P [0..<n] = Some i \<longleftrightarrow> (i < n \<and> P i \<and> (\<forall>j<i. \<not> P j))"
  by (auto simp: find_Some_iff)

lemma first_pods_name:
  assumes "Suc i < length segs" "segs ! i = ''pods''" "\<forall>j<i. segs ! j \<noteq> ''pods''"
  shows "getContainerName_loop tp segs [0..<length segs] =
           Inr (''v3io-fuse-'' @ segs ! Suc i @ ''-'' @ last segs)"
proof -
  have "List.find (\<lambda>i. segs ! i = ''pods'') [0..<length segs] = Some i"
    using assms by (simp add: find_upt_Some)
  moreover have "segs \<noteq> []" using assms by auto
  ultimately show ?thesis
    using assms(1) by (simp add: getContainerName_loop_find last_conv_nth)
qed

lemma loop_error_iff:
  "isl (getContainerName_loop tp segs [0..<length segs]) \<longleftrightarrow>
     \<not> (\<exists>i. Suc i < length segs \<and> segs ! i = ''pods'')"
proof (cases "List.find (\<lambda>i. segs ! i = ''pods'') [0..<length segs]")
  case None
  then have "\<forall>i<length segs. segs ! i \<noteq> ''pods''" by (simp add: find_upt_None)
  then have "\<not> (\<exists>i. Suc i < length segs \<and> segs ! i = ''pods'')" by auto
  then show ?thesis using None by (simp add: getContainerName_loop_find)
next
  case (Some k)
  then have k: "k < length segs" "segs ! k = ''pods''" "\<forall>j<k. segs ! j \<noteq> ''pods''"
    by (simp_all add: find_upt_Some)
  show ?thesis
  proof (cases "length segs \<le> Suc k")
    case True
    have "\<not> (\<exists>i. Suc i < length segs \<and> segs ! i = ''pods'')"
    proof
      assume "\<exists>i. Suc i < length segs \<and> segs ! i = ''pods''"
      then obtain i where i: "Suc i < length segs" "segs ! i = ''pods''" by blast
      with True have "i < k" by arith
      with k(3) i(2) show False by blast
    qed
    with True Some show ?thesis by (simp add: getContainerName_loop_find)
  next
    case False
    then have "Suc k < length segs" by arith
    with k(2) have "\<exists>i. Suc i < length segs \<and> segs ! i = ''pods''" by blast
    with False Some show ?thesis by (simp add: getContainerName_loop_find)
  qed
qed

lemma pods_followed_alt:
  "(\<exists>i. Suc i < length segs \<and> segs ! i = ''pods'') \<longleftrightarrow>
     \<not> (''pods'' \<notin> set segs \<or> (last segs = ''pods'' \<and> ''pods'' \<notin> set (butlast segs)))"
proof (cases "segs = []")
  case True
  then show ?thesis by simp
next
  case False
  then have segs: "segs = butlast segs @ [last segs]" by simp
  have "(\<exists>i. Suc i < length segs \<and> segs ! i = ''pods'') \<longleftrightarrow> ''pods'' \<in> set (butlast segs)"
  proof
    assume "\<exists>i. Suc i < length segs \<and> segs ! i = ''pods''"
    then obtain i where i: "Suc i < length segs" "segs ! i = ''pods''" by blast
    then have l: "i < length (butlast segs)" by simp
    then have "butlast segs ! i \<in> set (butlast segs)" by (rule nth_mem)
    moreover have "butlast segs ! i = segs ! i"
      using l by (simp add: nth_butlast)
    ultimately show "''pods'' \<in> set (butlast segs)" using i(2) by simp
  next
    assume "''pods'' \<in> set (butlast segs)"
    then obtain i where i: "i < length (butlast segs)" "butlast segs ! i = ''pods''"
      by (auto simp: in_set_conv_nth)
    then have "Suc i < length segs" "segs ! i = ''pods''"
      by (simp_all add: nth_butlast)
    then show "\<exists>i. Suc i < length segs \<and> segs ! i = ''pods''" by blast
  qed
  moreover have "''pods'' \<in> set segs \<longleftrightarrow> ''pods'' \<in> set (butlast segs) \<or> last segs = ''pods''"
    by (subst segs) auto
  ultimately show ?thesis by blast
qed

text \<open>
  Claim C4.  \<^verbatim>\<open>getContainerNameFromTargetPath\<close> is a function of the path alone.  With
  \<open>segs\<close> the segments of the path: when the first segment equal to \<^verbatim>\<open>pods\<close> is followed
  by a further segment, the result is \<^verbatim>\<open>v3io-fuse-\<close>, that next segment, a dash and the
  final segment of the path; the result is an error exactly when no \<^verbatim>\<open>pods\<close> segment is
  followed by a further segment, which is when \<^verbatim>\<open>pods\<close> is absent or its first occurrence
  is the final segment.  The three examples of the specification are evaluated.
\<close>

theorem getContainerNameFromTargetPath_resolves:
  assumes "segs = strings_Split targetPath filepath_Separator"
  shows "(\<forall>i. Suc i < length segs \<and> segs ! i = ''pods'' \<and> (\<forall>j<i. segs ! j \<noteq> ''pods'') \<longrightarrow>
            getContainerNameFromTargetPath targetPath =
              Inr (''v3io-fuse-'' @ segs ! Suc i @ ''-'' @ last segs))
       \<and> (isl (getContainerNameFromTargetPath targetPath) \<longleftrightarrow>
            \<not> (\<exists>i. Suc i < length segs \<and> segs ! i = ''pods''))
       \<and> (isl (getContainerNameFromTargetPath targetPath) \<longleftrightarrow>
            ''pods'' \<notin> set segs \<or> (last segs = ''pods'' \<and> ''pods'' \<notin> set (butlast segs)))
       \<and> getContainerNameFromTargetPath ''/a/pods/XYZ/volumes/v3io~fuse/vol1'' = Inr ''v3io-fuse-XYZ-vol1''
       \<and> getContainerNameFromTargetPath ''/a/pods'' = Inl (PodsAtEnd ''/a/pods'')
       \<and> getContainerNameFromTargetPath ''/a/b/c'' = Inl (PodsNotFound ''/a/b/c'')"
proof -
  have def: "getContainerNameFromTargetPath targetPath =
      getContainerName_loop targetPath segs [0..<length segs]"
    using assms by (simp add: getContainerNameFromTargetPath_def Let_def)
  have 1: "\<forall>i. Suc i < length segs \<and> segs ! i = ''pods'' \<and> (\<forall>j<i. segs ! j \<noteq> ''pods'') \<longrightarrow>
            getContainerNameFromTargetPath targetPath =
              Inr (''v3io-fuse-'' @ segs ! Suc i @ ''-'' @ last segs)"
    unfolding def using first_pods_name by blast
  have 2: "isl (getContainerNameFromTargetPath targetPath) \<longleftrightarrow>
            \<not> (\<exists>i. Suc i < length segs \<and> segs ! i = ''pods'')"
    unfolding def by (rule loop_error_iff)
  have 3: "isl (getContainerNameFromTargetPath targetPath) \<longleftrightarrow>
            ''pods'' \<notin> set segs \<or> (last segs = ''pods'' \<and> ''pods'' \<notin> set (butlast segs))"
    unfolding 2 pods_followed_alt by simp
  have 4: "getContainerNameFromTargetPath ''/a/pods/XYZ/volumes/v3io~fuse/vol1'' = Inr ''v3io-fuse-XYZ-vol1''"
    by (simp add: getContainerNameFromTargetPath_def filepath_Separator_def Let_def)
  have 5: "getContainerNameFromTargetPath ''/a/pods'' = Inl (PodsAtEnd ''/a/pods'')"
    by (simp add: getContainerNameFromTargetPath_def filepath_Separator_def Let_def)
  have 6: "getContainerNameFromTargetPath ''/a/b/c'' = Inl (PodsNotFound ''/a/b/c'')"
    by (simp add: getContainerNameFromTargetPath_def filepath_Separator_def Let_def)
  from 1 2 3 4 5 6 show ?thesis by blast
qed

text \<open>
  The theorem at a kubelet path whose volume is itself named \<^verbatim>\<open>pods\<close>: the first
  \<^verbatim>\<open>pods\<close> segment decides, and a name is returned.
\<close>

theorem getContainerNameFromTargetPath_resolves_witness:
  "getContainerNameFromTargetPath ''/var/lib/kubelet/pods/0c08/volumes/v3io~fuse/pods'' =
     Inr ''v3io-fuse-0c08-pods''
   \<and> \<not> isl (getContainerNameFromTargetPath ''/var/lib/kubelet/pods/0c08/volumes/v3io~fuse/pods'')"
proof -
  let ?tp = "''/var/lib/kubelet/pods/0c08/volumes/v3io~fuse/pods''"
  let ?segs = "['''', ''var'', ''lib'', ''kubelet'', ''pods'', ''0c08'', ''volumes'', ''v3io~fuse'', ''pods'']"
  have s: "?segs = strings_Split ?tp filepath_Separator"
    by (simp add: filepath_Separator_def)
  have pre: "Suc 4 < length ?segs \<and> ?segs ! 4 = ''pods'' \<and> (\<forall>j<4. ?segs ! j \<noteq> ''pods'')"
    by (simp add: less_Suc_eq numeral_eq_Suc)
  from getContainerNameFromTargetPath_resolves [OF s] pre
  have "getContainerNameFromTargetPath ?tp = Inr (''v3io-fuse-'' @ ?segs ! Suc 4 @ ''-'' @ last ?segs)"
    by blast
  moreover from getContainerNameFromTargetPath_resolves [OF s] pre
  have "\<not> isl (getContainerNameFromTargetPath ?tp)" by blast
  ultimately show ?thesis by simp
qed

subsection \<open>The lifecycle manager\<close>

lemma createV3IOFUSEContainer_unfold:
  assumes "createCRI env h = (Inr criInstance, h1)"
  shows "createV3IOFUSEContainer d config env spec targetPath h =
           (fst (createV3IOFUSEContainer_body d config env criInstance spec targetPath h1),
            snd (createV3IOFUSEContainer_body d config env criInstance spec targetPath h1)
              @ [Close criInstance])"
  using assms
  by (simp add: createV3IOFUSEContainer_def perform_def split_beta)

lemma createV3IOFUSEContainer_body_unfold:
  assumes "DataURLs d config (GetClusterName d spec) = Inr dataUrls"
      and "getContainerNameFromTargetPath targetPath = Inr containerName"
      and "create = CreateContainer criInstance (imageReference config) containerName targetPath
                      (helperArgs config spec dataUrls (GetAccessKey d spec))"
  shows "createV3IOFUSEContainer_body d config env criInstance spec targetPath h1 =
           (case reply_err (env (h1 @ [RemoveContainer criInstance containerName]) create) of
              Some err \<Rightarrow> (Some (FailedToCreateContainer targetPath err),
                            h1 @ [RemoveContainer criInstance containerName, create])
            | None \<Rightarrow> waitForMount env targetPath [1, 2, 4, 2, 1]
                        (h1 @ [RemoveContainer criInstance containerName, create]))"
proof -
  have img: "(if ImageRepository config = [] then ''iguazio/v3io-fuse'' else ImageRepository config)
               @ '':'' @ (if ImageTag config = [] then ''local'' else ImageTag config)
             = imageReference config"
    by (simp only: imageReference_def)
  have rm: "removeV3IOFUSEContainer env criInstance targetPath h1 =
              (map_option (CouldNotRemoveContainer targetPath)
                 (reply_err (env h1 (RemoveContainer criInstance containerName))),
               h1 @ [RemoveContainer criInstance containerName])"
    by (cases "reply_err (env h1 (RemoveContainer criInstance containerName))")
       (simp_all add: removeV3IOFUSEContainer_def assms(2) perform_def)
  show ?thesis
    unfolding createV3IOFUSEContainer_body_def Let_def assms(1) assms(2) sum.case rm
      prod.case img perform_def assms(3) [symmetric]
    by (cases "reply_err (env (h1 @ [RemoveContainer criInstance containerName]) create)")
       (simp_all only: option.case append.simps append_assoc)
qed

lemma probe_history_all:
  "probe_history h [1, 2, 4, 2, 1] 5 =
     h @ [ExecMount, Sleep 1, ExecMount, Sleep 2, ExecMount, Sleep 4, ExecMount, Sleep 2,
          ExecMount, Sleep 1]"
  by (simp add: probe_history_def)

text \<open>
  Claim C1 (amended).  Once the runtime client has been obtained and the data URLs of
  the cluster are known, \<^verbatim>\<open>createV3IOFUSEContainer\<close> goes on as follows.  If no container
  name can be derived from the target path it fails at once, before any removal or
  creation.  Otherwise it asks for the removal of the container of that name and goes
  on whatever the reply is, then asks for the creation of the container bound to the
  target path; if the creation fails it fails without polling.  After a creation that
  succeeded it probes the mount state before each wait of the schedule 1, 2, 4, 2, 1
  seconds: it succeeds at the first probe that finds the path mounted, and it fails
  with the timeout after the five probes and the five waits (10 seconds), with no probe
  after the last wait.  The client is closed at the end in every case.
\<close>

theorem createV3IOFUSEContainer_sequence:
  assumes "createCRI env h = (Inr criInstance, h1)"
      and "DataURLs d config (GetClusterName d spec) = Inr dataUrls"
      and "create = CreateContainer criInstance (imageReference config) containerName targetPath
                      (helperArgs config spec dataUrls (GetAccessKey d spec))"
      and "h2 = h1 @ [RemoveContainer criInstance containerName, create]"
  shows "(\<forall>err. getContainerNameFromTargetPath targetPath = Inl err \<longrightarrow>
            createV3IOFUSEContainer d config env spec targetPath h =
              (Some (FailedToGetContainerName err), h1 @ [Close criInstance]))
       \<and> (\<forall>err. getContainerNameFromTargetPath targetPath = Inr containerName
              \<and> reply_err (env (h1 @ [RemoveContainer criInstance containerName]) create) = Some err \<longrightarrow>
            createV3IOFUSEContainer d config env spec targetPath h =
              (Some (FailedToCreateContainer targetPath err), h2 @ [Close criInstance]))
       \<and> (\<forall>k<5. getContainerNameFromTargetPath targetPath = Inr containerName
              \<and> reply_err (env (h1 @ [RemoveContainer criInstance containerName]) create) = None
              \<and> probe env targetPath (probe_history h2 [1, 2, 4, 2, 1] k)
              \<and> (\<forall>j<k. \<not> probe env targetPath (probe_history h2 [1, 2, 4, 2, 1] j)) \<longrightarrow>
            createV3IOFUSEContainer d config env spec targetPath h =
              (None, probe_history h2 [1, 2, 4, 2, 1] k @ [ExecMount, Close criInstance]))
       \<and> (getContainerNameFromTargetPath targetPath = Inr containerName
              \<and> reply_err (env (h1 @ [RemoveContainer criInstance containerName]) create) = None
              \<and> (\<forall>j<5. \<not> probe env targetPath (probe_history h2 [1, 2, 4, 2, 1] j)) \<longrightarrow>
            createV3IOFUSEContainer d config env spec targetPath h =
              (Some (MountTimeout targetPath),
               h2 @ [ExecMount, Sleep 1, ExecMount, Sleep 2, ExecMount, Sleep 4, ExecMount, Sleep 2,
                     ExecMount, Sleep 1, Close criInstance]))"
proof -
  note unfold = createV3IOFUSEContainer_unfold [OF assms(1)]
  have len: "length [1, 2, 4, 2, 1::nat] = 5" by simp
  have 1: "createV3IOFUSEContainer d config env spec targetPath h =
      (Some (FailedToGetContainerName err), h1 @ [Close criInstance])"
    if "getContainerNameFromTargetPath targetPath = Inl err" for err
    using that assms(2) by (simp add: unfold createV3IOFUSEContainer_body_def)
  have body: "createV3IOFUSEContainer_body d config env criInstance spec targetPath h1 =
       (case reply_err (env (h1 @ [RemoveContainer criInstance containerName]) create) of
          Some err \<Rightarrow> (Some (FailedToCreateContainer targetPath err), h2)
        | None \<Rightarrow> waitForMount env targetPath [1, 2, 4, 2, 1] h2)"
    if "getContainerNameFromTargetPath targetPath = Inr containerName"
    unfolding assms(4) by (rule createV3IOFUSEContainer_body_unfold [OF assms(2) that assms(3)])
  have 2: "createV3IOFUSEContainer d config env spec targetPath h =
      (Some (FailedToCreateContainer targetPath err), h2 @ [Close criInstance])"
    if "getContainerNameFromTargetPath targetPath = Inr containerName
      \<and> reply_err (env (h1 @ [RemoveContainer criInstance containerName]) create) = Some err"
    for err
    using that by (simp add: unfold body)
  have 3: "createV3IOFUSEContainer d config env spec targetPath h =
      (None, probe_history h2 [1, 2, 4, 2, 1] k @ [ExecMount, Close criInstance])"
    if "k < 5" and a: "getContainerNameFromTargetPath targetPath = Inr containerName
      \<and> reply_err (env (h1 @ [RemoveContainer criInstance containerName]) create) = None
      \<and> probe env targetPath (probe_history h2 [1, 2, 4, 2, 1] k)
      \<and> (\<forall>j<k. \<not> probe env targetPath (probe_history h2 [1, 2, 4, 2, 1] j))"
    for k
  proof -
    have "waitForMount env targetPath [1, 2, 4, 2, 1] h2 =
            (None, probe_history h2 [1, 2, 4, 2, 1] k @ [ExecMount])"
      using that by (intro waitForMount_found) (simp only: len, blast, blast)
    with a show ?thesis
      by (simp add: unfold body del: waitForMount.simps)
  qed
  have 4: "createV3IOFUSEContainer d config env spec targetPath h =
      (Some (MountTimeout targetPath),
       h2 @ [ExecMount, Sleep 1, ExecMount, Sleep 2, ExecMount, Sleep 4, ExecMount, Sleep 2,
             ExecMount, Sleep 1, Close criInstance])"
    if a: "getContainerNameFromTargetPath targetPath = Inr containerName
      \<and> reply_err (env (h1 @ [RemoveContainer criInstance containerName]) create) = None
      \<and> (\<forall>j<5. \<not> probe env targetPath (probe_history h2 [1, 2, 4, 2, 1] j))"
  proof -
    have "waitForMount env targetPath [1, 2, 4, 2, 1] h2 =
            (Some (MountTimeout targetPath), probe_history h2 [1, 2, 4, 2, 1] 5)"
      using a waitForMount_timeout [of "[1, 2, 4, 2, 1]" env targetPath h2]
      unfolding len by blast
    then have "waitForMount env targetPath [1, 2, 4, 2, 1] h2 =
            (Some (MountTimeout targetPath),
             h2 @ [ExecMount, Sleep 1, ExecMount, Sleep 2, ExecMount, Sleep 4, ExecMount, Sleep 2,
                   ExecMount, Sleep 1])"
      unfolding probe_history_all .
    with a show ?thesis
      by (simp add: unfold body del: waitForMount.simps)
  qed
  from 1 2 3 4 show ?thesis by blast
qed

text \<open>
  The theorem where the mount shows after three seconds: the third probe finds it.
\<close>

theorem createV3IOFUSEContainer_sequence_witness:
  "createV3IOFUSEContainer (example_deps example_spec []) direct_config
      (env_mounted_from 3 example_target) example_spec example_target [] =
     (None,
      [Stat ''/usr/bin/docker'', NewDocker ''/usr/bin/docker'',
       RemoveContainer (Docker ''/usr/bin/docker'') ''v3io-fuse-p1-vol1'',
       CreateContainer (Docker ''/usr/bin/docker'') ''iguazio/v3io-fuse:local''
         ''v3io-fuse-p1-vol1'' example_target
         (helperArgs direct_config example_spec ''tcp://10.0.0.1:1234'' ''key''),
       ExecMount, Sleep 1, ExecMount, Sleep 2, ExecMount,
       Close (Docker ''/usr/bin/docker'')])"
proof -
  let ?env = "env_mounted_from 3 example_target"
  let ?d = "example_deps example_spec []"
  let ?c = "Docker ''/usr/bin/docker''"
  let ?h1 = "[Stat ''/usr/bin/docker'', NewDocker ''/usr/bin/docker'']"
  let ?create = "CreateContainer ?c (imageReference direct_config) ''v3io-fuse-p1-vol1''
      example_target (helperArgs direct_config example_spec ''tcp://10.0.0.1:1234'' ''key'')"
  let ?h2 = "?h1 @ [RemoveContainer ?c ''v3io-fuse-p1-vol1'', ?create]"
  have cri: "createCRI ?env [] = (Inr ?c, ?h1)"
    by (simp add: createCRI_def perform_def env_mounted_from_def Let_def)
  have urls: "DataURLs ?d direct_config (GetClusterName ?d example_spec) = Inr ''tcp://10.0.0.1:1234''"
    by (simp add: example_deps_def)
  have key: "GetAccessKey ?d example_spec = ''key''"
    by (simp add: example_deps_def)
  have name: "getContainerNameFromTargetPath example_target = Inr ''v3io-fuse-p1-vol1''"
    by (simp add: getContainerNameFromTargetPath_def filepath_Separator_def example_target_def)
  have img: "imageReference direct_config = ''iguazio/v3io-fuse:local''"
    by (simp add: imageReference_def direct_config_def)
  have created: "reply_err (?env (?h1 @ [RemoveContainer ?c ''v3io-fuse-p1-vol1'']) ?create) = None"
    by (simp add: env_mounted_from_def)
  have p0: "\<not> probe ?env example_target (probe_history ?h2 [1, 2, 4, 2, 1] 0)"
    by (simp add: probe_def isMountPoint_def perform_def env_mounted_from_def probe_history_def
          example_target_def)
  have p1: "\<not> probe ?env example_target (probe_history ?h2 [1, 2, 4, 2, 1] 1)"
    by (simp add: probe_def isMountPoint_def perform_def env_mounted_from_def probe_history_def
          example_target_def)
  have p2: "probe ?env example_target (probe_history ?h2 [1, 2, 4, 2, 1] 2)"
    by (simp add: probe_def isMountPoint_def perform_def env_mounted_from_def probe_history_def
          example_target_def mount_line_def take_Suc_conv_app_nth numeral_2_eq_2)
  have before: "\<forall>j<2. \<not> probe ?env example_target (probe_history ?h2 [1, 2, 4, 2, 1] j)"
    using p0 p1 by (simp add: less_Suc_eq numeral_2_eq_2)
  have "createV3IOFUSEContainer ?d direct_config ?env example_spec example_target [] =
          (None, probe_history ?h2 [1, 2, 4, 2, 1] 2 @ [ExecMount, Close ?c])"
    using createV3IOFUSEContainer_sequence [OF cri urls, of ?create "''v3io-fuse-p1-vol1''" example_target ?h2]
      name created p2 before key
    by simp
  then show ?thesis
    by (simp add: probe_history_def img key numeral_2_eq_2)
qed

text \<open>
  Claim C1 as stated fails twice.  Where the mount shows only once ten seconds have been
  slept, the call ends in the timeout although a probe after the last wait of the
  schedule finds the path mounted: the probes come before the waits, not after them.
  And for a target path without a \<^verbatim>\<open>pods\<close> segment the call fails without having asked
  for any removal or creation.
\<close>

theorem createV3IOFUSEContainer_counterexample:
  "createV3IOFUSEContainer (example_deps example_spec []) direct_config
      (env_mounted_from 10 example_target) example_spec example_target [] =
     (Some (MountTimeout example_target),
      [Stat ''/usr/bin/docker'', NewDocker ''/usr/bin/docker'',
       RemoveContainer (Docker ''/usr/bin/docker'') ''v3io-fuse-p1-vol1'',
       CreateContainer (Docker ''/usr/bin/docker'') ''iguazio/v3io-fuse:local''
         ''v3io-fuse-p1-vol1'' example_target
         (helperArgs direct_config example_spec ''tcp://10.0.0.1:1234'' ''key''),
       ExecMount, Sleep 1, ExecMount, Sleep 2, ExecMount, Sleep 4, ExecMount, Sleep 2,
       ExecMount, Sleep 1,
       Close (Docker ''/usr/bin/docker'')])
   \<and> probe (env_mounted_from 10 example_target) example_target
      [Stat ''/usr/bin/docker'', NewDocker ''/usr/bin/docker'',
       RemoveContainer (Docker ''/usr/bin/docker'') ''v3io-fuse-p1-vol1'',
       CreateContainer (Docker ''/usr/bin/docker'') ''iguazio/v3io-fuse:local''
         ''v3io-fuse-p1-vol1'' example_target
         (helperArgs direct_config example_spec ''tcp://10.0.0.1:1234'' ''key''),
       ExecMount, Sleep 1, ExecMount, Sleep 2, ExecMount, Sleep 4, ExecMount, Sleep 2,
       ExecMount, Sleep 1]
   \<and> createV3IOFUSEContainer (example_deps example_spec []) direct_config
      (env_mounted_from 0 ''/a/b/c'') example_spec ''/a/b/c'' [] =
     (Some (FailedToGetContainerName (PodsNotFound ''/a/b/c'')),
      [Stat ''/usr/bin/docker'', NewDocker ''/usr/bin/docker'',
       Close (Docker ''/usr/bin/docker'')])"
proof -
  have name: "getContainerNameFromTargetPath example_target = Inr ''v3io-fuse-p1-vol1''"
    by (simp add: getContainerNameFromTargetPath_def filepath_Separator_def example_target_def)
  have noname: "getContainerNameFromTargetPath ''/a/b/c'' = Inl (PodsNotFound ''/a/b/c'')"
    by (simp add: getContainerNameFromTargetPath_def filepath_Separator_def)
  have contains: "strings_Contains (mount_line example_target) (example_target @ '' type'')"
    by (simp add: mount_line_def example_target_def)
  have absent: "\<not> strings_Contains [] (example_target @ '' type'')"
    by simp
  have 1: "createV3IOFUSEContainer (example_deps example_spec []) direct_config
      (env_mounted_from 10 example_target) example_spec example_target [] =
     (Some (MountTimeout example_target),
      [Stat ''/usr/bin/docker'', NewDocker ''/usr/bin/docker'',
       RemoveContainer (Docker ''/usr/bin/docker'') ''v3io-fuse-p1-vol1'',
       CreateContainer (Docker ''/usr/bin/docker'') ''iguazio/v3io-fuse:local''
         ''v3io-fuse-p1-vol1'' example_target
         (helperArgs direct_config example_spec ''tcp://10.0.0.1:1234'' ''key''),
       ExecMount, Sleep 1, ExecMount, Sleep 2, ExecMount, Sleep 4, ExecMount, Sleep 2,
       ExecMount, Sleep 1,
       Close (Docker ''/usr/bin/docker'')])"
    using absent
    by (simp add: createV3IOFUSEContainer_def createV3IOFUSEContainer_body_def createCRI_def
          removeV3IOFUSEContainer_def perform_def env_mounted_from_def example_deps_def
          direct_config_def name isMountPoint_def Let_def)
  have 2: "probe (env_mounted_from 10 example_target) example_target
      [Stat ''/usr/bin/docker'', NewDocker ''/usr/bin/docker'',
       RemoveContainer (Docker ''/usr/bin/docker'') ''v3io-fuse-p1-vol1'',
       CreateContainer (Docker ''/usr/bin/docker'') ''iguazio/v3io-fuse:local''
         ''v3io-fuse-p1-vol1'' example_target
         (helperArgs direct_config example_spec ''tcp://10.0.0.1:1234'' ''key''),
       ExecMount, Sleep 1, ExecMount, Sleep 2, ExecMount, Sleep 4, ExecMount, Sleep 2,
       ExecMount, Sleep 1]"
    using contains
    by (simp add: probe_def isMountPoint_def perform_def env_mounted_from_def)
  have 3: "createV3IOFUSEContainer (example_deps example_spec []) direct_config
      (env_mounted_from 0 ''/a/b/c'') example_spec ''/a/b/c'' [] =
     (Some (FailedToGetContainerName (PodsNotFound ''/a/b/c'')),
      [Stat ''/usr/bin/docker'', NewDocker ''/usr/bin/docker'',
       Close (Docker ''/usr/bin/docker'')])"
    by (simp add: createV3IOFUSEContainer_def createV3IOFUSEContainer_body_def createCRI_def
          perform_def env_mounted_from_def example_deps_def noname Let_def)
  from 1 2 3 show ?thesis by simp
qed

subsection \<open>The calls a run of the lifecycle manager makes\<close>

lemma waitForMount_calls:
  "\<exists>t. snd (waitForMount env targetPath intervals h) = h @ t
       \<and> (\<forall>c\<in>set t. c = ExecMount \<or> (\<exists>n. c = Sleep n))"
proof (induction intervals arbitrary: h)
  case Nil
  then show ?case by simp
next
  case (Cons interval intervals)
  show ?case
  proof (cases "probe env targetPath h")
    case True
    then show ?thesis by (simp add: isMountPoint_probe)
  next
    case False
    from Cons.IH [of "h @ [ExecMount, Sleep interval]"]
    obtain t where t: "snd (waitForMount env targetPath intervals (h @ [ExecMount, Sleep interval]))
          = (h @ [ExecMount, Sleep interval]) @ t"
        "\<forall>c\<in>set t. c = ExecMount \<or> (\<exists>n. c = Sleep n)"
      by blast
    have "snd (waitForMount env targetPath (interval # intervals) h)
            = h @ ([ExecMount, Sleep interval] @ t)"
      using False t(1) by (simp add: isMountPoint_probe perform_def)
    moreover have "\<forall>c\<in>set ([ExecMount, Sleep interval] @ t). c = ExecMount \<or> (\<exists>n. c = Sleep n)"
      using t(2) by auto
    ultimately show ?thesis by blast
  qed
qed

lemma createCRI_calls:
  "\<exists>t. snd (createCRI env h) = h @ t
       \<and> (\<forall>c\<in>set t. (\<exists>p. c = Stat p) \<or> (\<exists>p. c = NewDocker p) \<or> (\<exists>s n. c = NewContainerd s n))"
proof -
  have "snd (createCRI env h) = h @ [Stat ''/usr/bin/docker'', NewDocker ''/usr/bin/docker'']
      \<or> snd (createCRI env h) = h @ [Stat ''/usr/bin/docker'',
            NewContainerd ''/run/containerd/containerd.sock'' ''v3io'']"
    by (simp add: createCRI_def perform_def Let_def split: option.splits)
  then show ?thesis by auto
qed

lemma createV3IOFUSEContainer_body_calls:
  "\<exists>t. snd (createV3IOFUSEContainer_body d config env criInstance spec targetPath h) = h @ t
       \<and> (\<forall>c image name target args. CreateContainer c image name target args \<in> set t \<longrightarrow>
             (\<exists>dataUrls. DataURLs d config (GetClusterName d spec) = Inr dataUrls
                \<and> args = helperArgs config spec dataUrls (GetAccessKey d spec)))"
proof (cases "DataURLs d config (GetClusterName d spec)")
  case (Inl err)
  then show ?thesis by (simp add: createV3IOFUSEContainer_body_def)
next
  case (Inr dataUrls)
  show ?thesis
  proof (cases "getContainerNameFromTargetPath targetPath")
    case (Inl err)
    with Inr show ?thesis by (simp add: createV3IOFUSEContainer_body_def)
  next
    case name: (Inr containerName)
    define create where "create = CreateContainer criInstance (imageReference config)
        containerName targetPath (helperArgs config spec dataUrls (GetAccessKey d spec))"
    define h2 where "h2 = h @ [RemoveContainer criInstance containerName, create]"
    note body = createV3IOFUSEContainer_body_unfold [OF Inr name create_def, of env h]
    show ?thesis
    proof (cases "reply_err (env (h @ [RemoveContainer criInstance containerName]) create)")
      case (Some err)
      with body have "snd (createV3IOFUSEContainer_body d config env criInstance spec targetPath h)
          = h @ [RemoveContainer criInstance containerName, create]"
        by simp
      then show ?thesis using Inr by (auto simp: create_def)
    next
      case None
      from waitForMount_calls [of env targetPath "[1, 2, 4, 2, 1]" h2]
      obtain t where t: "snd (waitForMount env targetPath [1, 2, 4, 2, 1] h2) = h2 @ t"
          "\<forall>c\<in>set t. c = ExecMount \<or> (\<exists>n. c = Sleep n)"
        by blast
      from None body t(1)
      have "snd (createV3IOFUSEContainer_body d config env criInstance spec targetPath h)
          = h @ ([RemoveContainer criInstance containerName, create] @ t)"
        by (simp add: h2_def del: waitForMount.simps)
      moreover have "\<forall>c image name target args.
          CreateContainer c image name target args
            \<in> set ([RemoveContainer criInstance containerName, create] @ t) \<longrightarrow>
          (\<exists>dataUrls. DataURLs d config (GetClusterName d spec) = Inr dataUrls
                \<and> args = helperArgs config spec dataUrls (GetAccessKey d spec))"
        using t(2) Inr by (auto simp: create_def)
      ultimately show ?thesis by blast
    qed
  qed
qed

lemma createV3IOFUSEContainer_calls:
  "\<exists>t. snd (createV3IOFUSEContainer d config env spec targetPath h) = h @ t
       \<and> (\<forall>c image name target args. CreateContainer c image name target args \<in> set t \<longrightarrow>
             (\<exists>dataUrls. DataURLs d config (GetClusterName d spec) = Inr dataUrls
                \<and> args = helperArgs config spec dataUrls (GetAccessKey d spec)))"
proof -
  from createCRI_calls [of env h]
  obtain t1 where t1: "snd (createCRI env h) = h @ t1"
      "\<forall>c\<in>set t1. (\<exists>p. c = Stat p) \<or> (\<exists>p. c = NewDocker p) \<or> (\<exists>s n. c = NewContainerd s n)"
    by blast
  show ?thesis
  proof (cases "fst (createCRI env h)")
    case (Inl err)
    then have "snd (createV3IOFUSEContainer d config env spec targetPath h) = h @ t1"
      using t1(1) by (simp add: createV3IOFUSEContainer_def split_beta)
    moreover have "\<forall>c image name target args. CreateContainer c image name target args \<notin> set t1"
      using t1(2) by auto
    ultimately show ?thesis by blast
  next
    case (Inr criInstance)
    then have cri: "createCRI env h = (Inr criInstance, h @ t1)"
      using t1(1) by (simp add: prod_eq_iff)
    from createV3IOFUSEContainer_body_calls [of d config env criInstance spec targetPath "h @ t1"]
    obtain t2 where t2:
        "snd (createV3IOFUSEContainer_body d config env criInstance spec targetPath (h @ t1))
           = (h @ t1) @ t2"
        "\<forall>c image name target args. CreateContainer c image name target args \<in> set t2 \<longrightarrow>
             (\<exists>dataUrls. DataURLs d config (GetClusterName d spec) = Inr dataUrls
                \<and> args = helperArgs config spec dataUrls (GetAccessKey d spec))"
      by blast
    have "snd (createV3IOFUSEContainer d config env spec targetPath h)
            = h @ (t1 @ t2 @ [Close criInstance])"
      using t2(1) by (simp add: createV3IOFUSEContainer_unfold [OF cri])
    moreover have "\<forall>c image name target args.
        CreateContainer c image name target args \<in> set (t1 @ t2 @ [Close criInstance]) \<longrightarrow>
             (\<exists>dataUrls. DataURLs d config (GetClusterName d spec) = Inr dataUrls
                \<and> args = helperArgs config spec dataUrls (GetAccessKey d spec))"
      using t1(2) t2(2) by auto
    ultimately show ?thesis by blast
  qed
qed

text \<open>
  Claim C10.  When the container field of the spec is empty, the argument vector of the
  helper is the fixed part (with \<^verbatim>\<open>-f\<close> and the configuration path when one is
  configured) and nothing else: neither \<^verbatim>\<open>-a\<close> nor \<^verbatim>\<open>-p\<close> is appended, whatever the
  sub-path is.  Every \<^verbatim>\<open>CreateContainer\<close> call that a run of
  \<^verbatim>\<open>createV3IOFUSEContainer\<close> makes carries exactly this vector.
\<close>

theorem helperArgs_empty_container:
  assumes "Container spec = []"
  shows "helperArgs config spec dataUrls accessKey =
           [''/fuse/mounter.sh'', ''-o'', ''allow_other'', ''--connection_strings'', dataUrls,
            ''--mountpoint'', ''/fuse_mount'', ''--session_key'', accessKey]
           @ (if V3ioConfigPath config = [] then [] else [''-f'', V3ioConfigPath config])
       \<and> (\<forall>c image name target args.
             CreateContainer c image name target args
               \<in> set (drop (length h) (snd (createV3IOFUSEContainer d config env spec targetPath h)))
             \<longrightarrow> (\<exists>dataUrls. DataURLs d config (GetClusterName d spec) = Inr dataUrls \<and>
                   args = [''/fuse/mounter.sh'', ''-o'', ''allow_other'', ''--connection_strings'',
                           dataUrls, ''--mountpoint'', ''/fuse_mount'', ''--session_key'',
                           GetAccessKey d spec]
                          @ (if V3ioConfigPath config = [] then [] else [''-f'', V3ioConfigPath config])))"
proof -
  have args: "helperArgs config spec u k =
           [''/fuse/mounter.sh'', ''-o'', ''allow_other'', ''--connection_strings'', u,
            ''--mountpoint'', ''/fuse_mount'', ''--session_key'', k]
           @ (if V3ioConfigPath config = [] then [] else [''-f'', V3ioConfigPath config])" for u k
    using assms by (simp add: helperArgs_def)
  from createV3IOFUSEContainer_calls [of d config env spec targetPath h]
  obtain t where t: "snd (createV3IOFUSEContainer d config env spec targetPath h) = h @ t"
      "\<forall>c image name target args. CreateContainer c image name target args \<in> set t \<longrightarrow>
             (\<exists>dataUrls. DataURLs d config (GetClusterName d spec) = Inr dataUrls
                \<and> args = helperArgs config spec dataUrls (GetAccessKey d spec))"
    by blast
  have "drop (length h) (snd (createV3IOFUSEContainer d config env spec targetPath h)) = t"
    using t(1) by simp
  with t(2) args show ?thesis by simp
qed

text \<open>The theorem at a spec with the sub-path \<^verbatim>\<open>sub\<close> and no container.\<close>

theorem helperArgs_empty_container_witness:
  "helperArgs direct_config example_spec_no_container ''tcp://10.0.0.1:1234'' ''key'' =
     [''/fuse/mounter.sh'', ''-o'', ''allow_other'', ''--connection_strings'',
      ''tcp://10.0.0.1:1234'', ''--mountpoint'', ''/fuse_mount'', ''--session_key'', ''key'']
   \<and> SubPath example_spec_no_container = ''sub''"
  using helperArgs_empty_container [of example_spec_no_container direct_config
      "''tcp://10.0.0.1:1234''" "''key''"]
  by (simp add: example_spec_no_container_def direct_config_def)

subsection \<open>Mounting a path that is mounted already\<close>

text \<open>
  Claim C2.  With a spec that decodes and validates, outside link mode, \<^verbatim>\<open>Mount\<close> on a
  target path that the prober reports as mounted answers "Already mounted" and its only
  call to the outside is that one probe: no runtime client, no removal, no creation,
  no wait.  A second call right after it, the path still mounted, does the same.
\<close>

theorem Mount_already_mounted:
  assumes "unmarshalSpec d specString = Inr spec"
      and "validate d spec = None"
      and "Type config \<noteq> ''link''"
      and "probe env targetPath h"
      and "probe env targetPath (h @ [ExecMount])"
  shows "Mount d config env targetPath specString h =
           (NewSuccessResponse (''Already mounted: '' @ targetPath), h @ [ExecMount])
       \<and> Mount d config env targetPath specString (h @ [ExecMount]) =
           (NewSuccessResponse (''Already mounted: '' @ targetPath), h @ [ExecMount, ExecMount])"
  using assms by (simp add: Mount_def isMountPoint_probe)

text \<open>The theorem where the target path is in the listing from the start.\<close>

theorem Mount_already_mounted_witness:
  "Mount (example_deps example_spec []) direct_config (env_mounted_from 0 example_target)
      example_target ''spec'' [] =
     (NewSuccessResponse (''Already mounted: '' @ example_target), [ExecMount])
   \<and> Mount (example_deps example_spec []) direct_config (env_mounted_from 0 example_target)
      example_target ''spec'' [ExecMount] =
     (NewSuccessResponse (''Already mounted: '' @ example_target), [ExecMount, ExecMount])"
proof -
  have contains: "strings_Contains (mount_line example_target) (example_target @ '' type'')"
    by (simp add: mount_line_def example_target_def)
  have p: "probe (env_mounted_from 0 example_target) example_target h" for h
    using contains by (simp add: probe_def isMountPoint_def perform_def env_mounted_from_def)
  have u: "unmarshalSpec (example_deps example_spec []) ''spec'' = Inr example_spec"
    by (simp add: example_deps_def)
  have v: "validate (example_deps example_spec []) example_spec = None"
    by (simp add: example_deps_def example_spec_def)
  have t: "Type direct_config \<noteq> ''link''"
    by (simp add: direct_config_def)
  from Mount_already_mounted [OF u v t p p]
  show ?thesis by simp
qed

subsection \<open>Unmounting a mounted path\<close>

lemma Unmount_unfold:
  assumes "Type config \<noteq> ''link''"
      and "probe env targetPath h"
      and "createCRI env (h @ [ExecMount]) = (Inr criInstance, h1)"
  shows "Unmount config env targetPath h =
           (fst (Unmount_body env criInstance targetPath h1),
            snd (Unmount_body env criInstance targetPath h1) @ [Close criInstance])"
  using assms
  by (simp add: Unmount_def isMountPoint_probe perform_def split_beta)

lemma Unmount_body_unfold:
  assumes "getContainerNameFromTargetPath targetPath = Inr containerName"
      and "reply_err (env h1 (RemoveContainer criInstance containerName)) = None"
      and "reply_err (env (h1 @ [RemoveContainer criInstance containerName])
             (ExecUmountStart targetPath)) = None"
  shows "Unmount_body env criInstance targetPath h1 =
           waitForUnmount env targetPath [1, 2, 4]
             (h1 @ [RemoveContainer criInstance containerName, ExecUmountStart targetPath])"
  using assms
  by (simp add: Unmount_body_def removeV3IOFUSEContainer_def perform_def
        del: waitForUnmount.simps)

lemma probe_history_unmount_all:
  "probe_history h [1, 2, 4] 3 = h @ [ExecMount, Sleep 1, ExecMount, Sleep 2, ExecMount, Sleep 4]"
  by (simp add: probe_history_def)

text \<open>
  Claim C5.  Outside link mode, for a target path reported as mounted, once the runtime
  client exists, the removal of the container has succeeded and \<^verbatim>\<open>umount\<close> has been
  started, \<^verbatim>\<open>Unmount\<close> probes before each wait of the schedule 1, 2, 4 seconds.  At the
  first probe that reports the path as not mounted it removes the directory and
  succeeds (and reports the failure of that removal if the operating system refuses
  it).  If all three probes report the path as mounted it fails with the timeout after
  7 seconds of waiting, and the directory is not removed.  The client is closed last.
\<close>

theorem Unmount_polls:
  assumes "Type config \<noteq> ''link''"
      and "probe env targetPath h"
      and "createCRI env (h @ [ExecMount]) = (Inr criInstance, h1)"
      and "getContainerNameFromTargetPath targetPath = Inr containerName"
      and "reply_err (env h1 (RemoveContainer criInstance containerName)) = None"
      and "reply_err (env (h1 @ [RemoveContainer criInstance containerName])
             (ExecUmountStart targetPath)) = None"
      and "h2 = h1 @ [RemoveContainer criInstance containerName, ExecUmountStart targetPath]"
  shows "(\<forall>k<3. \<not> probe env targetPath (probe_history h2 [1, 2, 4] k)
              \<and> (\<forall>j<k. probe env targetPath (probe_history h2 [1, 2, 4] j))
              \<and> reply_err (env (probe_history h2 [1, 2, 4] k @ [ExecMount]) (Remove targetPath)) = None \<longrightarrow>
            Unmount config env targetPath h =
              (NewSuccessResponse ''Successfully unmounted'',
               probe_history h2 [1, 2, 4] k @ [ExecMount, Remove targetPath, Close criInstance]))
       \<and> (\<forall>k<3. \<forall>err. \<not> probe env targetPath (probe_history h2 [1, 2, 4] k)
              \<and> (\<forall>j<k. probe env targetPath (probe_history h2 [1, 2, 4] j))
              \<and> reply_err (env (probe_history h2 [1, 2, 4] k @ [ExecMount]) (Remove targetPath)) = Some err \<longrightarrow>
            Unmount config env targetPath h =
              (NewFailResponse (''Could not remove directory '' @ targetPath) (Some err),
               probe_history h2 [1, 2, 4] k @ [ExecMount, Remove targetPath, Close criInstance]))
       \<and> ((\<forall>j<3. probe env targetPath (probe_history h2 [1, 2, 4] j)) \<longrightarrow>
            Unmount config env targetPath h =
              (NewFailResponse (''Failed to umount '' @ targetPath @ '' due to timeout'') None,
               h2 @ [ExecMount, Sleep 1, ExecMount, Sleep 2, ExecMount, Sleep 4, Close criInstance]))"
proof -
  have len: "length [1, 2, 4::nat] = 3" by simp
  have unfold: "Unmount config env targetPath h =
      (fst (waitForUnmount env targetPath [1, 2, 4] h2),
       snd (waitForUnmount env targetPath [1, 2, 4] h2) @ [Close criInstance])"
    unfolding Unmount_unfold [OF assms(1,2,3)] Unmount_body_unfold [OF assms(4,5,6)] assms(7) ..
  have gone: "waitForUnmount env targetPath [1, 2, 4] h2 =
       (case reply_err (env (probe_history h2 [1, 2, 4] k @ [ExecMount]) (Remove targetPath)) of
          None \<Rightarrow> NewSuccessResponse ''Successfully unmounted''
        | Some err \<Rightarrow> NewFailResponse (''Could not remove directory '' @ targetPath) (Some err),
        probe_history h2 [1, 2, 4] k @ [ExecMount, Remove targetPath])"
    if "k < 3" "\<not> probe env targetPath (probe_history h2 [1, 2, 4] k)"
       "\<forall>j<k. probe env targetPath (probe_history h2 [1, 2, 4] j)" for k
    using that by (intro waitForUnmount_gone) (simp only: len, blast, blast)
  have 1: "Unmount config env targetPath h =
      (NewSuccessResponse ''Successfully unmounted'',
       probe_history h2 [1, 2, 4] k @ [ExecMount, Remove targetPath, Close criInstance])"
    if "k < 3" and a: "\<not> probe env targetPath (probe_history h2 [1, 2, 4] k)
        \<and> (\<forall>j<k. probe env targetPath (probe_history h2 [1, 2, 4] j))
        \<and> reply_err (env (probe_history h2 [1, 2, 4] k @ [ExecMount]) (Remove targetPath)) = None"
    for k
    using gone [of k] that by (simp add: unfold del: waitForUnmount.simps)
  have 2: "Unmount config env targetPath h =
      (NewFailResponse (''Could not remove directory '' @ targetPath) (Some err),
       probe_history h2 [1, 2, 4] k @ [ExecMount, Remove targetPath, Close criInstance])"
    if "k < 3" and a: "\<not> probe env targetPath (probe_history h2 [1, 2, 4] k)
        \<and> (\<forall>j<k. probe env targetPath (probe_history h2 [1, 2, 4] j))
        \<and> reply_err (env (probe_history h2 [1, 2, 4] k @ [ExecMount]) (Remove targetPath)) = Some err"
    for k err
    using gone [of k] that by (simp add: unfold del: waitForUnmount.simps)
  have 3: "Unmount config env targetPath h =
      (NewFailResponse (''Failed to umount '' @ targetPath @ '' due to timeout'') None,
       h2 @ [ExecMount, Sleep 1, ExecMount, Sleep 2, ExecMount, Sleep 4, Close criInstance])"
    if a: "\<forall>j<3. probe env targetPath (probe_history h2 [1, 2, 4] j)"
  proof -
    have "waitForUnmount env targetPath [1, 2, 4] h2 =
        (NewFailResponse (''Failed to umount '' @ targetPath @ '' due to timeout'') None,
         probe_history h2 [1, 2, 4] 3)"
      using a waitForUnmount_timeout [of "[1, 2, 4]" env targetPath h2]
      unfolding len by blast
    then have "waitForUnmount env targetPath [1, 2, 4] h2 =
        (NewFailResponse (''Failed to umount '' @ targetPath @ '' due to timeout'') None,
         h2 @ [ExecMount, Sleep 1, ExecMount, Sleep 2, ExecMount, Sleep 4])"
      unfolding probe_history_unmount_all .
    then show ?thesis
      by (simp add: unfold del: waitForUnmount.simps)
  qed
  from 1 2 3 show ?thesis by blast
qed

text \<open>The theorem where the mount is gone after three seconds: the third probe sees it.\<close>

theorem Unmount_polls_witness:
  "Unmount direct_config (env_mounted_until 3 example_target) example_target [] =
     (NewSuccessResponse ''Successfully unmounted'',
      [ExecMount, Stat ''/usr/bin/docker'', NewDocker ''/usr/bin/docker'',
       RemoveContainer (Docker ''/usr/bin/docker'') ''v3io-fuse-p1-vol1'',
       ExecUmountStart example_target,
       ExecMount, Sleep 1, ExecMount, Sleep 2, ExecMount,
       Remove example_target, Close (Docker ''/usr/bin/docker'')])"
proof -
  let ?env = "env_mounted_until 3 example_target"
  let ?c = "Docker ''/usr/bin/docker''"
  let ?h1 = "[ExecMount, Stat ''/usr/bin/docker'', NewDocker ''/usr/bin/docker'']"
  let ?h2 = "?h1 @ [RemoveContainer ?c ''v3io-fuse-p1-vol1'', ExecUmountStart example_target]"
  have contains: "strings_Contains (mount_line example_target) (example_target @ '' type'')"
    by (simp add: mount_line_def example_target_def)
  have absent: "\<not> strings_Contains [] (example_target @ '' type'')"
    by simp
  have t: "Type direct_config \<noteq> ''link''"
    by (simp add: direct_config_def)
  have m: "probe ?env example_target []"
    using contains by (simp add: probe_def isMountPoint_def perform_def env_mounted_until_def)
  have cri: "createCRI ?env ([] @ [ExecMount]) = (Inr ?c, ?h1)"
    by (simp add: createCRI_def perform_def env_mounted_until_def Let_def)
  have name: "getContainerNameFromTargetPath example_target = Inr ''v3io-fuse-p1-vol1''"
    by (simp add: getContainerNameFromTargetPath_def filepath_Separator_def example_target_def)
  have rm: "reply_err (?env ?h1 (RemoveContainer ?c ''v3io-fuse-p1-vol1'')) = None"
    by (simp add: env_mounted_until_def)
  have um: "reply_err (?env (?h1 @ [RemoveContainer ?c ''v3io-fuse-p1-vol1''])
      (ExecUmountStart example_target)) = None"
    by (simp add: env_mounted_until_def)
  have p0: "probe ?env example_target (probe_history ?h2 [1, 2, 4] 0)"
    using contains
    by (simp add: probe_def isMountPoint_def perform_def env_mounted_until_def probe_history_def)
  have p1: "probe ?env example_target (probe_history ?h2 [1, 2, 4] 1)"
    using contains
    by (simp add: probe_def isMountPoint_def perform_def env_mounted_until_def probe_history_def)
  have p2: "\<not> probe ?env example_target (probe_history ?h2 [1, 2, 4] 2)"
    using absent
    by (simp add: probe_def isMountPoint_def perform_def env_mounted_until_def probe_history_def
          take_Suc_conv_app_nth numeral_2_eq_2)
  have before: "\<forall>j<2. probe ?env example_target (probe_history ?h2 [1, 2, 4] j)"
    using p0 p1 by (simp add: less_Suc_eq numeral_2_eq_2)
  have removed: "reply_err (?env (probe_history ?h2 [1, 2, 4] 2 @ [ExecMount])
      (Remove example_target)) = None"
    by (simp add: env_mounted_until_def)
  have "Unmount direct_config ?env example_target [] =
          (NewSuccessResponse ''Successfully unmounted'',
           probe_history ?h2 [1, 2, 4] 2 @ [ExecMount, Remove example_target, Close ?c])"
    using Unmount_polls [OF t m cri name rm um refl] p2 before removed
    by simp
  then show ?thesis
    by (simp add: probe_history_def numeral_2_eq_2)
qed

subsection \<open>Unmounting a path that is not mounted\<close>












subsection \<open>Invalid input\<close>

lemma createV3IOFUSEContainer_success_created:
  assumes "createV3IOFUSEContainer d config env spec targetPath h = (None, h2)"
  shows "\<exists>c image name args.
           CreateContainer c image name targetPath args \<in> set (drop (length h) h2)"
proof -
  from createCRI_calls [of env h]
  obtain t1 where t1: "snd (createCRI env h) = h @ t1" by blast
  show ?thesis
  proof (cases "fst (createCRI env h)")
    case (Inl err)
    with assms show ?thesis
      by (simp add: createV3IOFUSEContainer_def split_beta)
  next
    case (Inr criInstance)
    then have cri: "createCRI env h = (Inr criInstance, h @ t1)"
      using t1 by (simp add: prod_eq_iff)
    note unfold = createV3IOFUSEContainer_unfold [OF cri, of d config spec targetPath]
    from assms unfold
    have ok: "fst (createV3IOFUSEContainer_body d config env criInstance spec targetPath (h @ t1)) = None"
      and h2: "h2 = snd (createV3IOFUSEContainer_body d config env criInstance spec targetPath (h @ t1))
                 @ [Close criInstance]"
      by simp_all
    show ?thesis
    proof (cases "DataURLs d config (GetClusterName d spec)")
      case (Inl err)
      with ok show ?thesis by (simp add: createV3IOFUSEContainer_body_def)
    next
      case urls: (Inr dataUrls)
      show ?thesis
      proof (cases "getContainerNameFromTargetPath targetPath")
        case (Inl err)
        with ok urls show ?thesis by (simp add: createV3IOFUSEContainer_body_def)
      next
        case name: (Inr containerName)
        define create where "create = CreateContainer criInstance (imageReference config)
            containerName targetPath (helperArgs config spec dataUrls (GetAccessKey d spec))"
        define h3 where "h3 = (h @ t1) @ [RemoveContainer criInstance containerName, create]"
        note body = createV3IOFUSEContainer_body_unfold [OF urls name create_def, of env "h @ t1"]
        from waitForMount_calls [of env targetPath "[1, 2, 4, 2, 1]" h3]
        obtain t where t: "snd (waitForMount env targetPath [1, 2, 4, 2, 1] h3) = h3 @ t"
          by blast
        show ?thesis
        proof (cases "reply_err (env ((h @ t1) @ [RemoveContainer criInstance containerName]) create)")
          case (Some err)
          with body ok show ?thesis by simp
        next
          case None
          with body t have "snd (createV3IOFUSEContainer_body d config env criInstance spec targetPath
              (h @ t1)) = h3 @ t"
            by (simp add: h3_def del: waitForMount.simps)
          with h2 have "drop (length h) h2
              = t1 @ [RemoveContainer criInstance containerName, create] @ t @ [Close criInstance]"
            by (simp add: h3_def)
          then have "create \<in> set (drop (length h) h2)" by simp
          then show ?thesis unfolding create_def by blast
        qed
      qed
    qed
  qed
qed

text \<open>
  Claim C8 (amended).  A spec text that does not decode, and a decoded spec that does
  not validate, make \<^verbatim>\<open>Mount\<close> fail at once with no call to the outside.  A malformed
  list of directories is not among the checks made at the start: outside link mode,
  for a path not yet mounted, it is found only after the helper container has been
  created and the mount has shown, and \<^verbatim>\<open>Mount\<close> then fails with the container in place
  (no directory is created).
\<close>

theorem Mount_invalid_input:
  "(\<forall>err. unmarshalSpec d specString = Inl err \<longrightarrow>
      Mount d config env targetPath specString h =
        (NewFailResponse ''Failed to unmarshal spec'' (Some err), h))
   \<and> (\<forall>spec err. unmarshalSpec d specString = Inr spec \<and> validate d spec = Some err \<longrightarrow>
      Mount d config env targetPath specString h =
        (NewFailResponse ''Mount failed validation'' (Some err), h))
   \<and> (\<forall>spec err h2. unmarshalSpec d specString = Inr spec \<and> validate d spec = None
        \<and> Type config \<noteq> ''link'' \<and> \<not> probe env targetPath h
        \<and> createV3IOFUSEContainer d config env spec targetPath (h @ [ExecMount]) = (None, h2)
        \<and> unmarshalDirs d (DirsToCreate spec) = Inl err \<and> DirsToCreate spec \<noteq> [] \<longrightarrow>
      Mount d config env targetPath specString h =
        (NewFailResponse ''Failed to create folders''
           (Some (FailedToParseDirsToCreate (DirsToCreate spec) err)), h2)
      \<and> (\<exists>c image name args.
            CreateContainer c image name targetPath args \<in> set (drop (length h) h2)))"
proof -
  have 1: "Mount d config env targetPath specString h =
        (NewFailResponse ''Failed to unmarshal spec'' (Some err), h)"
    if "unmarshalSpec d specString = Inl err" for err
    using that by (simp add: Mount_def)
  have 2: "Mount d config env targetPath specString h =
        (NewFailResponse ''Mount failed validation'' (Some err), h)"
    if "unmarshalSpec d specString = Inr spec \<and> validate d spec = Some err" for spec err
    using that by (simp add: Mount_def)
  have 3: "Mount d config env targetPath specString h =
        (NewFailResponse ''Failed to create folders''
           (Some (FailedToParseDirsToCreate (DirsToCreate spec) err)), h2)
      \<and> (\<exists>c image name args.
            CreateContainer c image name targetPath args \<in> set (drop (length h) h2))"
    if a: "unmarshalSpec d specString = Inr spec \<and> validate d spec = None
        \<and> Type config \<noteq> ''link'' \<and> \<not> probe env targetPath h
        \<and> createV3IOFUSEContainer d config env spec targetPath (h @ [ExecMount]) = (None, h2)
        \<and> unmarshalDirs d (DirsToCreate spec) = Inl err \<and> DirsToCreate spec \<noteq> []"
    for spec err h2
  proof -
    from a have c: "createV3IOFUSEContainer d config env spec targetPath (h @ [ExecMount]) = (None, h2)"
      by blast
    from createV3IOFUSEContainer_success_created [OF c]
    obtain cr image name args where
      "CreateContainer cr image name targetPath args \<in> set (drop (length (h @ [ExecMount])) h2)"
      by blast
    then have "CreateContainer cr image name targetPath args \<in> set (drop (length h) h2)"
      using set_drop_subset_set_drop [of "length h" "length (h @ [ExecMount])" h2] by auto
    moreover have "Mount d config env targetPath specString h =
        (NewFailResponse ''Failed to create folders''
           (Some (FailedToParseDirsToCreate (DirsToCreate spec) err)), h2)"
      using a by (simp add: Mount_def isMountPoint_probe createDirs_def)
    ultimately show ?thesis by blast
  qed
  from 1 2 3 show ?thesis by blast
qed

text \<open>The theorem at a spec text that does not decode.\<close>

theorem Mount_invalid_input_witness:
  "Mount (example_deps example_spec []) direct_config env_empty example_target ''{'' [] =
     (NewFailResponse ''Failed to unmarshal spec'' (Some (External ''invalid character'')), [])"
proof -
  have u: "unmarshalSpec (example_deps example_spec []) ''{'' = Inl (External ''invalid character'')"
    by (simp add: example_deps_def)
  have "\<forall>err. unmarshalSpec (example_deps example_spec []) ''{'' = Inl err \<longrightarrow>
      Mount (example_deps example_spec []) direct_config env_empty example_target ''{'' [] =
        (NewFailResponse ''Failed to unmarshal spec'' (Some err), [])"
    using Mount_invalid_input [of "example_deps example_spec []" "''{''" direct_config env_empty
      example_target "[]"]
    by (rule conjunct1)
  from this [THEN spec, THEN mp, OF u] show ?thesis .
qed

text \<open>
  Claim C8 as stated fails for a malformed list of directories: the container is
  removed and created, the mount is waited for, and only then does \<^verbatim>\<open>Mount\<close> fail.
\<close>

theorem Mount_invalid_input_counterexample:
  "unmarshalDirs (example_deps example_spec_bad_dirs []) (DirsToCreate example_spec_bad_dirs) =
     Inl (External ''unexpected end of JSON input'')
   \<and> Mount (example_deps example_spec_bad_dirs []) direct_config
      (env_mounted_from 1 example_target) example_target ''spec'' [] =
     (NewFailResponse ''Failed to create folders''
        (Some (FailedToParseDirsToCreate ''[{'' (External ''unexpected end of JSON input''))),
      [ExecMount, Stat ''/usr/bin/docker'', NewDocker ''/usr/bin/docker'',
       RemoveContainer (Docker ''/usr/bin/docker'') ''v3io-fuse-p1-vol1'',
       CreateContainer (Docker ''/usr/bin/docker'') ''iguazio/v3io-fuse:local''
         ''v3io-fuse-p1-vol1'' example_target
         (helperArgs direct_config example_spec_bad_dirs ''tcp://10.0.0.1:1234'' ''key''),
       ExecMount, Sleep 1, ExecMount,
       Close (Docker ''/usr/bin/docker'')])"
proof -
  let ?d = "example_deps example_spec_bad_dirs []"
  let ?env = "env_mounted_from 1 example_target"
  let ?h = "[ExecMount, Stat ''/usr/bin/docker'', NewDocker ''/usr/bin/docker'',
       RemoveContainer (Docker ''/usr/bin/docker'') ''v3io-fuse-p1-vol1'',
       CreateContainer (Docker ''/usr/bin/docker'') ''iguazio/v3io-fuse:local''
         ''v3io-fuse-p1-vol1'' example_target
         (helperArgs direct_config example_spec_bad_dirs ''tcp://10.0.0.1:1234'' ''key''),
       ExecMount, Sleep 1, ExecMount,
       Close (Docker ''/usr/bin/docker'')]"
  have name: "getContainerNameFromTargetPath example_target = Inr ''v3io-fuse-p1-vol1''"
    by (simp add: getContainerNameFromTargetPath_def filepath_Separator_def example_target_def)
  have contains: "strings_Contains (mount_line example_target) (example_target @ '' type'')"
    by (simp add: mount_line_def example_target_def)
  have absent: "\<not> strings_Contains [] (example_target @ '' type'')"
    by simp
  have dirs: "unmarshalDirs ?d (DirsToCreate example_spec_bad_dirs) =
      Inl (External ''unexpected end of JSON input'')"
    by (simp add: example_deps_def example_spec_bad_dirs_def)
  have field: "DirsToCreate example_spec_bad_dirs = ''[{''"
    by (simp add: example_spec_bad_dirs_def)
  have u: "unmarshalSpec ?d ''spec'' = Inr example_spec_bad_dirs"
    by (simp add: example_deps_def)
  have v: "validate ?d example_spec_bad_dirs = None"
    by (simp add: example_deps_def example_spec_bad_dirs_def)
  have t: "Type direct_config \<noteq> ''link''"
    by (simp add: direct_config_def)
  have p: "isMountPoint ?env example_target [] = (False, [ExecMount])"
    using absent by (simp add: isMountPoint_def perform_def env_mounted_from_def)
  have c: "createV3IOFUSEContainer ?d direct_config ?env example_spec_bad_dirs example_target
      [ExecMount] = (None, ?h)"
    using absent contains
    by (simp add: createV3IOFUSEContainer_def createV3IOFUSEContainer_body_def createCRI_def
          removeV3IOFUSEContainer_def perform_def env_mounted_from_def example_deps_def
          direct_config_def name isMountPoint_def Let_def)
  have cd: "createDirs ?d ?env example_spec_bad_dirs example_target ?h =
      (Some (FailedToParseDirsToCreate ''[{'' (External ''unexpected end of JSON input'')), ?h)"
    using dirs by (simp add: createDirs_def field)
  have "Mount ?d direct_config ?env example_target ''spec'' [] =
     (NewFailResponse ''Failed to create folders''
        (Some (FailedToParseDirsToCreate ''[{'' (External ''unexpected end of JSON input''))), ?h)"
    unfolding Mount_def u v sum.case option.case if_not_P [OF t] Let_def p prod.case if_False
      not_False_eq_True if_True c cd
    by (rule refl)
  with dirs show ?thesis by simp
qed

subsection \<open>Directory pre-creation\<close>

lemma createDirs_loop_append:
  assumes "createDirs_loop env targetPath before h = (None, h1)"
  shows "createDirs_loop env targetPath (before @ rest) h = createDirs_loop env targetPath rest h1"
  using assms
proof (induction before arbitrary: h)
  case Nil
  then show ?case by simp
next
  case (Cons dir before)
  show ?case
  proof (cases "strings_HasPrefix (Name dir) ''/''")
    case True
    with Cons.prems show ?thesis by simp
  next
    case rel: False
    let ?p = "targetPath @ ''/'' @ Name dir"
    show ?thesis
    proof (cases "reply_err (env h (Stat ?p))")
      case None
      with rel Cons.prems have "createDirs_loop env targetPath before (h @ [Stat ?p]) = (None, h1)"
        by (simp add: perform_def Let_def)
      from Cons.IH [OF this] None rel show ?thesis
        by (simp add: perform_def Let_def)
    next
      case (Some err)
      show ?thesis
      proof (cases "os_IsNotExist (env h (Stat ?p))")
        case False
        with Some rel Cons.prems show ?thesis by (simp add: perform_def Let_def)
      next
        case True
        show ?thesis
        proof (cases "reply_err (env (h @ [Stat ?p]) (MkdirAll ?p (Permissions dir)))")
          case None
          with True Some rel Cons.prems
          have "createDirs_loop env targetPath before
                  (h @ [Stat ?p, MkdirAll ?p (Permissions dir)]) = (None, h1)"
            by (simp add: perform_def Let_def)
          from Cons.IH [OF this] None True Some rel show ?thesis
            by (simp add: perform_def Let_def)
        next
          case (Some err')
          with True \<open>reply_err (env h (Stat ?p)) = Some err\<close> rel Cons.prems show ?thesis
            by (simp add: perform_def Let_def)
        qed
      qed
    qed
  qed
qed

lemma createDirs_loop_absolute_fails:
  assumes "\<exists>x\<in>set dirs. strings_HasPrefix (Name x) ''/''"
  shows "fst (createDirs_loop env targetPath dirs h) \<noteq> None"
  using assms
proof (induction dirs arbitrary: h)
  case Nil
  then show ?case by simp
next
  case (Cons dir dirs)
  show ?case
  proof (cases "strings_HasPrefix (Name dir) ''/''")
    case True
    then show ?thesis by simp
  next
    case False
    with Cons.prems have "\<exists>x\<in>set dirs. strings_HasPrefix (Name x) ''/''" by simp
    note IH = Cons.IH [OF this]
    with False show ?thesis
      by (simp add: perform_def Let_def split: option.splits)
  qed
qed

text \<open>
  Claim C6 (amended).  \<^verbatim>\<open>createDirs\<close> takes the descriptors in the order of the list
  and stops at the first failure.  For the descriptor it has reached, all earlier ones
  having gone through: a name that starts with the separator makes it fail there, with
  no call for this descriptor or any later one; a relative name whose directory exists
  under the target path is left alone, without error; a relative name whose directory
  does not exist is created with the permission bits of the descriptor, and a failure
  of the creation or of the lookup is the failure of \<^verbatim>\<open>createDirs\<close>.  A list with an
  absolute name anywhere makes \<^verbatim>\<open>createDirs\<close> fail, and a list of the single name
  \<^verbatim>\<open>/etc\<close> makes it fail without any call.
\<close>

theorem createDirs_in_order:
  assumes "unmarshalDirs d (DirsToCreate spec) = Inr (before @ dir # after)"
      and "createDirs_loop env targetPath before h = (None, h1)"
      and "dirToCreate = targetPath @ ''/'' @ Name dir"
  shows "(strings_HasPrefix (Name dir) ''/'' \<longrightarrow>
            createDirs d env spec targetPath h = (Some (OnlyRelativePath (Name dir)), h1))
       \<and> (\<not> strings_HasPrefix (Name dir) ''/'' \<and> reply_err (env h1 (Stat dirToCreate)) = None \<longrightarrow>
            createDirs d env spec targetPath h =
              createDirs_loop env targetPath after (h1 @ [Stat dirToCreate]))
       \<and> (\<not> strings_HasPrefix (Name dir) ''/'' \<and> os_IsNotExist (env h1 (Stat dirToCreate))
            \<and> reply_err (env (h1 @ [Stat dirToCreate]) (MkdirAll dirToCreate (Permissions dir))) = None \<longrightarrow>
            createDirs d env spec targetPath h =
              createDirs_loop env targetPath after
                (h1 @ [Stat dirToCreate, MkdirAll dirToCreate (Permissions dir)]))
       \<and> (\<forall>err. \<not> strings_HasPrefix (Name dir) ''/'' \<and> os_IsNotExist (env h1 (Stat dirToCreate))
            \<and> reply_err (env (h1 @ [Stat dirToCreate]) (MkdirAll dirToCreate (Permissions dir))) = Some err \<longrightarrow>
            createDirs d env spec targetPath h =
              (Some (FailedToCreateFolder (Name dir) (Permissions dir) err),
               h1 @ [Stat dirToCreate, MkdirAll dirToCreate (Permissions dir)]))
       \<and> (\<forall>err. \<not> strings_HasPrefix (Name dir) ''/'' \<and> \<not> os_IsNotExist (env h1 (Stat dirToCreate))
            \<and> reply_err (env h1 (Stat dirToCreate)) = Some err \<longrightarrow>
            createDirs d env spec targetPath h =
              (Some (StatFailed dirToCreate err), h1 @ [Stat dirToCreate]))
       \<and> ((\<exists>x\<in>set (before @ dir # after). strings_HasPrefix (Name x) ''/'') \<longrightarrow>
            fst (createDirs d env spec targetPath h) \<noteq> None)
       \<and> (before = [] \<and> after = [] \<and> Name dir = ''/etc'' \<longrightarrow>
            createDirs d env spec targetPath h = (Some (OnlyRelativePath ''/etc''), h))"
proof -
  have whole: "createDirs d env spec targetPath h =
      createDirs_loop env targetPath (before @ dir # after) h"
    using assms(1) by (simp add: createDirs_def)
  have here: "createDirs d env spec targetPath h = createDirs_loop env targetPath (dir # after) h1"
    unfolding whole by (rule createDirs_loop_append [OF assms(2)])
  have notexist: "reply_err r \<noteq> None" if "os_IsNotExist r" for r
    using that by (cases r) simp_all
  have 1: "strings_HasPrefix (Name dir) ''/'' \<longrightarrow>
            createDirs d env spec targetPath h = (Some (OnlyRelativePath (Name dir)), h1)"
    by (simp add: here)
  have 2: "\<not> strings_HasPrefix (Name dir) ''/'' \<and> reply_err (env h1 (Stat dirToCreate)) = None \<longrightarrow>
            createDirs d env spec targetPath h =
              createDirs_loop env targetPath after (h1 @ [Stat dirToCreate])"
    by (simp add: here perform_def assms(3) Let_def)
  have 3: "\<not> strings_HasPrefix (Name dir) ''/'' \<and> os_IsNotExist (env h1 (Stat dirToCreate))
            \<and> reply_err (env (h1 @ [Stat dirToCreate]) (MkdirAll dirToCreate (Permissions dir))) = None \<longrightarrow>
            createDirs d env spec targetPath h =
              createDirs_loop env targetPath after
                (h1 @ [Stat dirToCreate, MkdirAll dirToCreate (Permissions dir)])"
    using notexist [of "env h1 (Stat dirToCreate)"]
    by (auto simp: here perform_def assms(3) Let_def)
  have 4: "\<forall>err. \<not> strings_HasPrefix (Name dir) ''/'' \<and> os_IsNotExist (env h1 (Stat dirToCreate))
            \<and> reply_err (env (h1 @ [Stat dirToCreate]) (MkdirAll dirToCreate (Permissions dir))) = Some err \<longrightarrow>
            createDirs d env spec targetPath h =
              (Some (FailedToCreateFolder (Name dir) (Permissions dir) err),
               h1 @ [Stat dirToCreate, MkdirAll dirToCreate (Permissions dir)])"
    using notexist [of "env h1 (Stat dirToCreate)"]
    by (auto simp: here perform_def assms(3) Let_def)
  have 5: "\<forall>err. \<not> strings_HasPrefix (Name dir) ''/'' \<and> \<not> os_IsNotExist (env h1 (Stat dirToCreate))
            \<and> reply_err (env h1 (Stat dirToCreate)) = Some err \<longrightarrow>
            createDirs d env spec targetPath h =
              (Some (StatFailed dirToCreate err), h1 @ [Stat dirToCreate])"
    by (simp add: here perform_def assms(3) Let_def)
  have 6: "(\<exists>x\<in>set (before @ dir # after). strings_HasPrefix (Name x) ''/'') \<longrightarrow>
            fst (createDirs d env spec targetPath h) \<noteq> None"
    unfolding whole using createDirs_loop_absolute_fails by blast
  have 7: "before = [] \<and> after = [] \<and> Name dir = ''/etc'' \<longrightarrow>
            createDirs d env spec targetPath h = (Some (OnlyRelativePath ''/etc''), h)"
    using assms(2) by (auto simp: here)
  from 1 2 3 4 5 6 7 show ?thesis by blast
qed

text \<open>
  The theorem for the list \<^verbatim>\<open>a/b\<close>, \<^verbatim>\<open>c\<close> under \<^verbatim>\<open>/t\<close> where \<^verbatim>\<open>/t/c\<close> exists: the first
  directory is created, the second is only looked up.
\<close>

theorem createDirs_in_order_witness:
  "createDirs (example_deps example_spec_dirs example_dirs) (env_dirs [''/t/c''])
      example_spec_dirs ''/t'' [] =
     (None, [Stat ''/t/a/b'', MkdirAll ''/t/a/b'' mode_0755, Stat ''/t/c''])"
proof -
  let ?d = "example_deps example_spec_dirs example_dirs"
  let ?env = "env_dirs [''/t/c'']"
  let ?ab = "\<lparr>Name = ''a/b'', Permissions = mode_0755\<rparr>"
  let ?c = "\<lparr>Name = ''c'', Permissions = mode_0755\<rparr>"
  let ?h1 = "[Stat ''/t/a/b'', MkdirAll ''/t/a/b'' mode_0755]"
  have dirs: "unmarshalDirs ?d (DirsToCreate example_spec_dirs) = Inr ([?ab] @ ?c # [])"
    by (simp add: example_deps_def example_spec_dirs_def example_dirs_def)
  have first: "createDirs_loop ?env ''/t'' [?ab] [] = (None, ?h1)"
    by (simp add: perform_def env_dirs_def Let_def)
  have path: "''/t/c'' = ''/t'' @ ''/'' @ Name ?c"
    by simp
  have rel: "\<not> strings_HasPrefix (Name ?c) ''/''"
    by simp
  have "reply_err (?env ?h1 (Stat ''/t/c'')) = None"
    by (simp add: env_dirs_def)
  with createDirs_in_order [OF dirs first path] rel
  have "createDirs ?d ?env example_spec_dirs ''/t'' [] =
      createDirs_loop ?env ''/t'' [] (?h1 @ [Stat ''/t/c''])"
    by blast
  then show ?thesis by simp
qed

text \<open>
  Claim C6 as stated fails for the list \<^verbatim>\<open>/etc\<close>, \<^verbatim>\<open>a\<close>: the directory of the relative
  name \<^verbatim>\<open>a\<close> does not exist, and it is neither looked up nor created.
\<close>

theorem createDirs_in_order_counterexample:
  "createDirs (example_deps example_spec_dirs example_dirs_absolute_first) (env_dirs [])
      example_spec_dirs ''/t'' [] = (Some (OnlyRelativePath ''/etc''), [])
   \<and> example_dirs_absolute_first =
       [\<lparr>Name = ''/etc'', Permissions = mode_0755\<rparr>, \<lparr>Name = ''a'', Permissions = mode_0755\<rparr>]
   \<and> \<not> strings_HasPrefix ''a'' ''/''
   \<and> env_dirs [] [] (Stat ''/t/a'') = NotExist ''no such file or directory''"
  by (simp add: createDirs_def example_deps_def example_spec_dirs_def
        example_dirs_absolute_first_def env_dirs_def)

subsection \<open>Link mode\<close>

text \<open>
  Claim C7.  In link mode, for the namespace \<^verbatim>\<open>ns1\<close> and the container \<^verbatim>\<open>c1\<close>, with the
  shared path not yet mounted: the shared directory is created, but the lifecycle
  manager derives the container name from the shared path \<^verbatim>\<open>/mnt/v3io/ns1/c1\<close>, which
  has no \<^verbatim>\<open>pods\<close> segment, so \<^verbatim>\<open>Mount\<close> fails with no container created and no symbolic
  link made.
\<close>

theorem mountAsLink_fails_to_bind:
  "Mount (example_deps example_spec []) link_config (env_listing []) example_target ''spec'' [] =
     (NewFailResponse ''Failed to create v3io FUSE container''
        (Some (FailedToGetContainerName (PodsNotFound ''/mnt/v3io/ns1/c1''))),
      [ExecMount, MkdirAll ''/mnt/v3io/ns1/c1'' mode_0755,
       Stat ''/usr/bin/docker'', NewDocker ''/usr/bin/docker'',
       Close (Docker ''/usr/bin/docker'')])"
proof -
  let ?d = "example_deps example_spec []"
  let ?env = "env_listing []"
  have link: "path_Join [''/mnt/v3io'', Namespace example_spec, Container example_spec] =
      ''/mnt/v3io/ns1/c1''"
    by (simp add: path_Join_def path_Clean_def example_spec_def Let_def)
  have noname: "getContainerNameFromTargetPath ''/mnt/v3io/ns1/c1'' =
      Inl (PodsNotFound ''/mnt/v3io/ns1/c1'')"
    by (simp add: getContainerNameFromTargetPath_def filepath_Separator_def)
  have u: "unmarshalSpec ?d ''spec'' = Inr example_spec"
    by (simp add: example_deps_def)
  have v: "validate ?d example_spec = None"
    by (simp add: example_deps_def example_spec_def)
  have t: "Type link_config = ''link''"
    by (simp add: link_config_def)
  have p: "isMountPoint ?env ''/mnt/v3io/ns1/c1'' [] = (False, [ExecMount])"
    by (simp add: isMountPoint_def perform_def env_listing_def)
  have mk: "perform ?env (MkdirAll ''/mnt/v3io/ns1/c1'' mode_0755) [ExecMount] =
      (Ok [], [ExecMount, MkdirAll ''/mnt/v3io/ns1/c1'' mode_0755])"
    by (simp add: perform_def env_listing_def)
  have c: "createV3IOFUSEContainer ?d link_config ?env example_spec ''/mnt/v3io/ns1/c1''
      [ExecMount, MkdirAll ''/mnt/v3io/ns1/c1'' mode_0755] =
     (Some (FailedToGetContainerName (PodsNotFound ''/mnt/v3io/ns1/c1'')),
      [ExecMount, MkdirAll ''/mnt/v3io/ns1/c1'' mode_0755,
       Stat ''/usr/bin/docker'', NewDocker ''/usr/bin/docker'',
       Close (Docker ''/usr/bin/docker'')])"
    by (simp add: createV3IOFUSEContainer_def createV3IOFUSEContainer_body_def createCRI_def
          perform_def env_listing_def example_deps_def noname Let_def)
  have "mountAsLink ?d link_config ?env example_spec example_target [] =
     (NewFailResponse ''Failed to create v3io FUSE container''
        (Some (FailedToGetContainerName (PodsNotFound ''/mnt/v3io/ns1/c1''))),
      [ExecMount, MkdirAll ''/mnt/v3io/ns1/c1'' mode_0755,
       Stat ''/usr/bin/docker'', NewDocker ''/usr/bin/docker'',
       Close (Docker ''/usr/bin/docker'')])"
    unfolding mountAsLink_def link Let_def p prod.case mk c
    by simp
  then show ?thesis
    by (simp add: Mount_def u v t)
qed

subsection \<open>False positives of the prober\<close>

text \<open>
  Claim C9.  The listing has a single entry, for \<^verbatim>\<open>/mnt/data\<close>; \<^verbatim>\<open>isMountPoint\<close> answers
  "mounted" for the path \<^verbatim>\<open>/data\<close>, because the text \<^verbatim>\<open>/data type\<close> occurs in the entry
  of the other mount point.
\<close>

theorem isMountPoint_false_positive:
  "isMountPoint (env_listing ''/dev/sda1 on /mnt/data type ext4 (rw)'') ''/data'' [] =
     (True, [ExecMount])"
  by (simp add: isMountPoint_def perform_def env_listing_def)

end
